theory Spec2Isabelle
  imports Complex_Main
begin

section \<open>Python calls: exceptions and the state of the libraries\<close>

text \<open>
  The notebook is glue around RDKit, pandas, NumPy and scikit-learn. A Python call either
  returns a value or raises, and it may read and change state that the notebook does not
  see (NumPy's global random generator, caches of the toolkit). A call is therefore a
  function from the state before it to its outcome and the state after it; \<open>Inl\<close> is a
  raised exception.
\<close>

datatype exn =
    ArgumentError
  | OverflowError
  | ValueError
  | LibraryError string

type_synonym ('a, 's) py = "'s \<Rightarrow> (exn + 'a) \<times> 's"

definition py_return :: "'a \<Rightarrow> ('a, 's) py" where
  "py_return a s = (Inr a, s)"

definition py_raise :: "exn \<Rightarrow> ('a, 's) py" where
  "py_raise e s = (Inl e, s)"

text \<open>Sequencing: an exception of the first call skips the rest.\<close>

definition py_bind :: "('a, 's) py \<Rightarrow> ('a \<Rightarrow> ('b, 's) py) \<Rightarrow> ('b, 's) py" where
  "py_bind m f s = (case m s of (Inl e, s') \<Rightarrow> (Inl e, s') | (Inr a, s') \<Rightarrow> f a s')"

text \<open>A library call that cannot raise.\<close>

definition total_call :: "('s \<Rightarrow> 'a \<times> 's) \<Rightarrow> ('a, 's) py" where
  "total_call m s = (case m s of (a, s') \<Rightarrow> (Inr a, s'))"

text \<open>A list comprehension \<^verbatim>\<open>[f(x) for x in xs]\<close>: left to right, stopping at the first exception.\<close>

fun py_comprehension :: "('a \<Rightarrow> ('b, 's) py) \<Rightarrow> 'a list \<Rightarrow> ('b list, 's) py" where
  "py_comprehension f [] = py_return []"
| "py_comprehension f (x # xs) =
     py_bind (f x) (\<lambda>y. py_bind (py_comprehension f xs) (\<lambda>ys. py_return (y # ys)))"

text \<open>
  A \<^verbatim>\<open>for\<close> loop over a list: the body runs for each element in order; an exception
  of the body ends the loop at once and leaves the state as the body left it.
\<close>

fun for_loop :: "('a \<Rightarrow> (unit, 's) py) \<Rightarrow> 'a list \<Rightarrow> (unit, 's) py" where
  "for_loop body [] s = (Inr (), s)"
| "for_loop body (x # xs) s =
     (case body x s of (Inl e, s') \<Rightarrow> (Inl e, s') | (Inr u, s') \<Rightarrow> for_loop body xs s')"

text \<open>\<^verbatim>\<open>range(n)\<close>.\<close>

definition py_range :: "nat \<Rightarrow> int list" where
  "py_range n = map int [0..<n]"


section \<open>The toolkit's interface\<close>

text \<open>
  RDKit is not part of the repository. What it computes (which molecule a SMILES string
  denotes, which atom environments a molecule has) is a parameter of the model; how its
  Python interface binds and checks arguments, and how large the bit vector is that it
  returns, is written out from its published signatures:

  \<^item> \<^verbatim>\<open>Chem.MolFromSmiles(smiles)\<close> returns a molecule, or \<^verbatim>\<open>None\<close> when the string does
    not parse; it does not raise.
  \<^item> \<^verbatim>\<open>AllChem.GetMorganFingerprintAsBitVect(mol, radius, nBits=2048, ...)\<close> takes the
    molecule by reference (\<^verbatim>\<open>None\<close> is rejected with \<^verbatim>\<open>ArgumentError\<close>) and two unsigned
    integers, and returns a bit vector of \<^verbatim>\<open>nBits\<close> bits in which bit \<^verbatim>\<open>h % nBits\<close> is set
    for the hash \<^verbatim>\<open>h\<close> of each atom environment. \<^verbatim>\<open>nBits = 0\<close> is refused with
    \<^verbatim>\<open>ValueError\<close> ("nBits can not be zero") before anything is computed.
  \<^item> \<^verbatim>\<open>rdFingerprintGenerator.GetMorganGenerator(radius=3, countSimulation=False,
    includeChirality=False, useBondTypes=True, onlyNonzeroInvariants=False,
    includeRingMembership=True, countBounds=None, fpSize=2048, ...)\<close>: the second
    positional parameter is the flag \<^verbatim>\<open>countSimulation\<close>, for which an integer is taken by
    its truth value; the size of the fingerprint is the keyword \<^verbatim>\<open>fpSize\<close>.
  \<^item> \<^verbatim>\<open>generator.GetFingerprint(mol)\<close> takes the molecule by reference and returns a bit
    vector of \<^verbatim>\<open>fpSize\<close> bits.
  \<^item> \<^verbatim>\<open>DataStructs.ConvertToNumpyArray(bv, arr)\<close> resizes \<^verbatim>\<open>arr\<close> to the number of bits
    of \<^verbatim>\<open>bv\<close> and stores every bit.
\<close>

record morgan_generator =
  gen_radius :: nat
  countSimulation :: bool
  fpSize :: nat

record ('mol, 'w) toolkit =
  MolFromSmiles :: "string \<Rightarrow> 'w \<Rightarrow> 'mol option \<times> 'w"
  morgan_environments :: "'mol \<Rightarrow> nat \<Rightarrow> 'w \<Rightarrow> nat list \<times> 'w"
  generator_environments :: "'mol \<Rightarrow> morgan_generator \<Rightarrow> 'w \<Rightarrow> nat list \<times> 'w"

text \<open>An argument declared \<^verbatim>\<open>unsigned int\<close>: a Python integer outside its range is refused.\<close>

definition as_unsigned_int :: "int \<Rightarrow> (nat, 'w) py" where
  "as_unsigned_int n = (if 0 \<le> n \<and> n < 2 ^ 32 then py_return (nat n) else py_raise OverflowError)"

text \<open>A bit vector of \<open>n\<close> bits with bit \<open>h mod n\<close> set for each hash \<open>h\<close>.\<close>

definition hashed_bit_vect :: "nat \<Rightarrow> nat list \<Rightarrow> bool list" where
  "hashed_bit_vect n hs = fold (\<lambda>h bv. bv[h mod n := True]) hs (replicate n False)"

definition GetMorganFingerprintAsBitVect ::
  "('mol, 'w) toolkit \<Rightarrow> 'mol option \<Rightarrow> int \<Rightarrow> int \<Rightarrow> (bool list, 'w) py" where
  "GetMorganFingerprintAsBitVect T mol radius nBits =
     (case mol of
        None \<Rightarrow> py_raise ArgumentError
      | Some m \<Rightarrow>
          py_bind (as_unsigned_int radius) (\<lambda>r.
          py_bind (as_unsigned_int nBits) (\<lambda>n.
          if n = 0 then py_raise ValueError
          else
            py_bind (total_call (morgan_environments T m r)) (\<lambda>hs.
            py_return (hashed_bit_vect n hs)))))"

text \<open>
  The call \<^verbatim>\<open>GetMorganGenerator(a, b)\<close> with two positional integers: \<open>a\<close> is the radius,
  \<open>b\<close> is read as \<^verbatim>\<open>countSimulation\<close>, and \<^verbatim>\<open>fpSize\<close> keeps its default.
\<close>

definition GetMorganGenerator :: "int \<Rightarrow> int \<Rightarrow> (morgan_generator, 'w) py" where
  "GetMorganGenerator a b =
     py_bind (as_unsigned_int a) (\<lambda>r.
     py_return \<lparr>gen_radius = r, countSimulation = (b \<noteq> 0), fpSize = 2048\<rparr>)"

definition GetFingerprint ::
  "('mol, 'w) toolkit \<Rightarrow> morgan_generator \<Rightarrow> 'mol option \<Rightarrow> (bool list, 'w) py" where
  "GetFingerprint T g mol =
     (case mol of
        None \<Rightarrow> py_raise ArgumentError
      | Some m \<Rightarrow>
          py_bind (total_call (generator_environments T m g)) (\<lambda>hs.
          py_return (hashed_bit_vect (fpSize g) hs)))"

text \<open>\<^verbatim>\<open>np.zeros((n,), dtype=bool)\<close> and the resize of an array in place.\<close>

definition np_zeros :: "nat \<Rightarrow> bool list" where
  "np_zeros n = replicate n False"

definition np_resize :: "nat \<Rightarrow> bool list \<Rightarrow> bool list" where
  "np_resize n arr = take n arr @ replicate (n - length arr) False"

definition ConvertToNumpyArray :: "bool list \<Rightarrow> bool list \<Rightarrow> bool list" where
  "ConvertToNumpyArray bv arr =
     fold (\<lambda>i a. a[i := bv ! i]) [0..<length bv] (np_resize (length bv) arr)"

text \<open>
  \<^verbatim>\<open>np.vstack(rows)\<close>: an empty list and rows of different lengths are refused.
\<close>

definition np_vstack :: "bool list list \<Rightarrow> (bool list list, 'w) py" where
  "np_vstack rows =
     (if rows = [] then py_raise ValueError
      else if list_ex (\<lambda>r. length r \<noteq> length (hd rows)) rows then py_raise ValueError
      else py_return rows)"


section \<open>The fingerprint functions and the transformer\<close>

definition compute_morgan_fingerprints_newvers ::
  "('mol, 'w) toolkit \<Rightarrow> string \<Rightarrow> int \<Rightarrow> int \<Rightarrow> (bool list, 'w) py" where
  "compute_morgan_fingerprints_newvers T smiles fingerprint_length fingerprint_radius =
     py_bind (GetMorganGenerator fingerprint_radius fingerprint_length) (\<lambda>mfpgen.
     py_bind (total_call (MolFromSmiles T smiles)) (\<lambda>molecule.
     py_bind (GetFingerprint T mfpgen molecule) (\<lambda>fingerprint.
     py_return (ConvertToNumpyArray fingerprint (np_zeros 1)))))"

definition compute_morgan_fingerprints ::
  "('mol, 'w) toolkit \<Rightarrow> string \<Rightarrow> int \<Rightarrow> int \<Rightarrow> (bool list, 'w) py" where
  "compute_morgan_fingerprints T smiles fingerprint_length fingerprint_radius =
     py_bind (total_call (MolFromSmiles T smiles)) (\<lambda>molecule.
     py_bind (GetMorganFingerprintAsBitVect T molecule fingerprint_radius fingerprint_length)
       (\<lambda>fingerprint.
     py_return (ConvertToNumpyArray fingerprint (np_zeros 1))))"

text \<open>\<^verbatim>\<open>MorganFingerprintTransformer\<close>: its two attributes; \<^verbatim>\<open>fit\<close> returns the object as it is.\<close>

record MorganFingerprintTransformer =
  length_attr :: int
  radius_attr :: int

definition init_transformer :: "int \<Rightarrow> int \<Rightarrow> MorganFingerprintTransformer" where
  "init_transformer l r = \<lparr>length_attr = l, radius_attr = r\<rparr>"

definition fit :: "MorganFingerprintTransformer \<Rightarrow> string list \<Rightarrow> real list \<Rightarrow> MorganFingerprintTransformer"
  where
  "fit self X y = self"

definition transform ::
  "('mol, 'w) toolkit \<Rightarrow> MorganFingerprintTransformer \<Rightarrow> string list \<Rightarrow> (bool list list, 'w) py"
  where
  "transform T self X =
     py_bind
       (py_comprehension (\<lambda>m. compute_morgan_fingerprints T m (length_attr self) (radius_attr self)) X)
       (\<lambda>fing. np_vstack fing)"


section \<open>The experiment sweep\<close>

text \<open>
  The data frames of the sweep hold the two columns the loop reads. pandas' \<^verbatim>\<open>sample\<close>,
  the nearest-neighbour regressor and the two scores are parameters of the model: any of
  them may raise, and \<^verbatim>\<open>sample\<close> draws from the random generator in the libraries' state.
\<close>

record row =
  smiles_0 :: string
  bandgap :: real

type_synonym frame = "row list"

record ('knn, 'w) sklearn =
  sample :: "frame \<Rightarrow> int \<Rightarrow> (frame, 'w) py"
  knn_fit :: "'knn \<Rightarrow> bool list list \<Rightarrow> real list \<Rightarrow> ('knn, 'w) py"
  knn_predict :: "'knn \<Rightarrow> bool list list \<Rightarrow> (real list, 'w) py"
  r2_score :: "real list \<Rightarrow> real list \<Rightarrow> (real, 'w) py"
  mean_absolute_error :: "real list \<Rightarrow> real list \<Rightarrow> (real, 'w) py"

text \<open>The pipeline \<^verbatim>\<open>model\<close>: the fingerprint step and the regressor.\<close>

record 'knn pipeline =
  fingerprint :: MorganFingerprintTransformer
  knn :: 'knn

text \<open>A result record is a Python dictionary: its keys in the order of the literal.\<close>

datatype pyval = PyInt int | PyFloat real

type_synonym result = "(string \<times> pyval) list"

text \<open>The variables of the notebook that the sweep cell reads or writes, and the libraries' state.\<close>

record ('knn, 'w) notebook =
  train_data :: frame
  test_data :: frame
  model :: "'knn pipeline"
  results :: "result list"
  subset_var :: frame
  y_pred :: "real list"
  libs :: 'w

definition library :: "('a, 'w) py \<Rightarrow> ('a, ('knn, 'w) notebook) py" where
  "library m nb = (case m (libs nb) of (r, w') \<Rightarrow> (r, nb\<lparr>libs := w'\<rparr>))"

definition assign :: "('s \<Rightarrow> 's) \<Rightarrow> (unit, 's) py" where
  "assign f s = (Inr (), f s)"

text \<open>\<^verbatim>\<open>model.set_params(fingerprint__length=l)\<close>.\<close>

definition set_params_fingerprint_length :: "int \<Rightarrow> (unit, ('knn, 'w) notebook) py" where
  "set_params_fingerprint_length l =
     assign (\<lambda>nb. nb\<lparr>model := (model nb)\<lparr>fingerprint := (fingerprint (model nb))\<lparr>length_attr := l\<rparr>\<rparr>\<rparr>)"

text \<open>
  \<^verbatim>\<open>Pipeline.fit(X, y)\<close> fits the fingerprint step, transforms \<open>X\<close> with it and fits the
  regressor on the result; \<^verbatim>\<open>Pipeline.predict(X)\<close> transforms \<open>X\<close> and asks the regressor.
\<close>

definition pipeline_fit ::
  "('mol, 'w) toolkit \<Rightarrow> ('knn, 'w) sklearn \<Rightarrow> string list \<Rightarrow> real list
     \<Rightarrow> (unit, ('knn, 'w) notebook) py" where
  "pipeline_fit T L X y =
     py_bind (\<lambda>nb. library (transform T (fit (fingerprint (model nb)) X y) X) nb) (\<lambda>Xt.
     py_bind (\<lambda>nb. library (knn_fit L (knn (model nb)) Xt y) nb) (\<lambda>k.
     assign (\<lambda>nb. nb\<lparr>model := (model nb)\<lparr>knn := k\<rparr>\<rparr>)))"

definition pipeline_predict ::
  "('mol, 'w) toolkit \<Rightarrow> ('knn, 'w) sklearn \<Rightarrow> string list
     \<Rightarrow> (real list, ('knn, 'w) notebook) py" where
  "pipeline_predict T L X =
     py_bind (\<lambda>nb. library (transform T (fingerprint (model nb)) X) nb) (\<lambda>Xt.
     (\<lambda>nb. library (knn_predict L (knn (model nb)) Xt) nb))"

definition result_record :: "int \<Rightarrow> int \<Rightarrow> int \<Rightarrow> real \<Rightarrow> real \<Rightarrow> result" where
  "result_record l s i r2 mae =
     [(''length'', PyInt l), (''train_size'', PyInt s), (''iteration'', PyInt i),
      (''r2_score'', PyFloat r2), (''mae'', PyFloat mae)]"

text \<open>The body of the innermost loop.\<close>

definition sweep_iteration ::
  "('mol, 'w) toolkit \<Rightarrow> ('knn, 'w) sklearn \<Rightarrow> int \<Rightarrow> int \<Rightarrow> int
     \<Rightarrow> (unit, ('knn, 'w) notebook) py" where
  "sweep_iteration T L l s i =
     py_bind (\<lambda>nb. library (sample L (train_data nb) s) nb) (\<lambda>sub.
     py_bind (assign (\<lambda>nb. nb\<lparr>subset_var := sub\<rparr>)) (\<lambda>u.
     py_bind (\<lambda>nb. pipeline_fit T L (map smiles_0 (subset_var nb)) (map bandgap (subset_var nb)) nb)
       (\<lambda>u.
     py_bind (\<lambda>nb. pipeline_predict T L (map smiles_0 (test_data nb)) nb) (\<lambda>yp.
     py_bind (assign (\<lambda>nb. nb\<lparr>y_pred := yp\<rparr>)) (\<lambda>u.
     py_bind (\<lambda>nb. library (r2_score L (map bandgap (test_data nb)) (y_pred nb)) nb) (\<lambda>r2.
     py_bind (\<lambda>nb. library (mean_absolute_error L (map bandgap (test_data nb)) (y_pred nb)) nb)
       (\<lambda>mae.
     assign (\<lambda>nb. nb\<lparr>results := results nb @ [result_record l s i r2 mae]\<rparr>))))))))"

text \<open>
  The cell: \<^verbatim>\<open>results = []\<close>, then the three loops. The progress bar around the sizes
  iterates over the list it wraps; the conversion of \<^verbatim>\<open>results\<close> to a data frame after the
  loops keeps the records as its rows, in order, and is left out.
\<close>

definition swept_lengths :: "int list" where
  "swept_lengths = [32, 64, 128]"

definition swept_sizes :: "int list" where
  "swept_sizes = [3, 10, 30, 100, 300, 1000, 3000]"

definition sweep ::
  "('mol, 'w) toolkit \<Rightarrow> ('knn, 'w) sklearn \<Rightarrow> (unit, ('knn, 'w) notebook) py" where
  "sweep T L =
     py_bind (assign (\<lambda>nb. nb\<lparr>results := []\<rparr>)) (\<lambda>u.
     for_loop (\<lambda>l.
       py_bind (set_params_fingerprint_length l) (\<lambda>u.
       for_loop (\<lambda>s.
         for_loop (\<lambda>i. sweep_iteration T L l s i) (py_range 16))
         swept_sizes))
       swept_lengths)"

text \<open>
  The loop positions in the order in which the loops reach them, and the position a
  record names: the index of its length, the index of its training-set size, and its
  repetition.
\<close>

definition sweep_keys :: "(int \<times> int \<times> int) list" where
  "sweep_keys =
     concat (map (\<lambda>l. concat (map (\<lambda>s. map (\<lambda>i. (l, s, i)) (py_range 16)) swept_sizes))
       swept_lengths)"

fun index_of :: "'a list \<Rightarrow> 'a \<Rightarrow> nat option" where
  "index_of [] y = None"
| "index_of (x # xs) y = (if x = y then Some 0 else map_option Suc (index_of xs y))"

definition int_field :: "result \<Rightarrow> string \<Rightarrow> int option" where
  "int_field r k = (case map_of r k of Some (PyInt n) \<Rightarrow> Some n | _ \<Rightarrow> None)"

definition loop_position :: "result \<Rightarrow> (nat \<times> nat \<times> int) option" where
  "loop_position r =
     (case (int_field r ''length'', int_field r ''train_size'', int_field r ''iteration'') of
        (Some l, Some s, Some i) \<Rightarrow>
          (case (index_of swept_lengths l, index_of swept_sizes s) of
             (Some a, Some b) \<Rightarrow> Some (a, b, i)
           | _ \<Rightarrow> None)
      | _ \<Rightarrow> None)"

fun precedes :: "nat \<times> nat \<times> int \<Rightarrow> nat \<times> nat \<times> int \<Rightarrow> bool" where
  "precedes (a, b, c) (a', b', c') = (a < a' \<or> (a = a' \<and> (b < b' \<or> (b = b' \<and> c < c'))))"

text \<open>
  The cell as the sequence of its steps: a \<^verbatim>\<open>set_params\<close> at the start of each length,
  then the iterations of that length.
\<close>

datatype step = SetLength int | Iteration int int int

fun is_iteration :: "step \<Rightarrow> bool" where
  "is_iteration (SetLength l) = False"
| "is_iteration (Iteration l s i) = True"

definition sweep_steps :: "step list" where
  "sweep_steps =
     concat (map (\<lambda>l. SetLength l #
        concat (map (\<lambda>s. map (\<lambda>i. Iteration l s i) (py_range 16)) swept_sizes)) swept_lengths)"

fun run_step ::
  "('mol, 'w) toolkit \<Rightarrow> ('knn, 'w) sklearn \<Rightarrow> step \<Rightarrow> (unit, ('knn, 'w) notebook) py" where
  "run_step T L (SetLength l) = set_params_fingerprint_length l"
| "run_step T L (Iteration l s i) = sweep_iteration T L l s i"

text \<open>
  A pair of scores computed against the targets of a test partition: both are what the
  score functions return for those targets and one prediction, and the prediction is what
  the regressor returns for the fingerprints of that partition's SMILES strings.
\<close>

definition scored_against ::
  "('mol, 'w) toolkit \<Rightarrow> ('knn, 'w) sklearn \<Rightarrow> frame \<Rightarrow> real \<Rightarrow> real \<Rightarrow> bool" where
  "scored_against T L test r2 mae =
     (\<exists>t Xt k yp w1 w2 w3 w4.
        fst (transform T t (map smiles_0 test) w1) = Inr Xt \<and>
        fst (knn_predict L k Xt w2) = Inr yp \<and>
        fst (r2_score L (map bandgap test) yp w3) = Inr r2 \<and>
        fst (mean_absolute_error L (map bandgap test) yp w4) = Inr mae)"


text \<open>
  What a loop appends: \<open>recorded\<close> says that a record is the dictionary of one loop
  position with scores computed against a test partition; \<open>appends\<close> says that a piece of
  the cell leaves both partitions alone and appends the records of the positions \<open>ks\<close> in
  order: all of them when it returns, a proper initial part of them when it raises.
\<close>

definition recorded ::
  "('mol, 'w) toolkit \<Rightarrow> ('knn, 'w) sklearn \<Rightarrow> frame \<Rightarrow> int \<times> int \<times> int \<Rightarrow> result \<Rightarrow> bool" where
  "recorded T L test key r =
     (case key of (l, s, i) \<Rightarrow> \<exists>a b. r = result_record l s i a b \<and> scored_against T L test a b)"

definition appends ::
  "('mol, 'w) toolkit \<Rightarrow> ('knn, 'w) sklearn \<Rightarrow> (int \<times> int \<times> int) list
     \<Rightarrow> (unit, ('knn, 'w) notebook) py \<Rightarrow> bool" where
  "appends T L ks m \<longleftrightarrow>
     (\<forall>nb out nb'. m nb = (out, nb') \<longrightarrow>
        train_data nb' = train_data nb \<and> test_data nb' = test_data nb \<and>
        (\<exists>n rs. results nb' = results nb @ rs \<and> n \<le> length ks \<and>
           (case out of Inr u \<Rightarrow> n = length ks | Inl e \<Rightarrow> n < length ks) \<and>
           list_all2 (recorded T L (test_data nb)) (take n ks) rs))"


section \<open>Descriptor tables, feature selection and standardization\<close>

text \<open>
  A descriptor table is a list of named columns; a column has one of the dtypes the
  notebook meets: \<^verbatim>\<open>int64\<close>, \<^verbatim>\<open>float64\<close> (\<open>None\<close> is NaN), \<^verbatim>\<open>bool\<close>, or \<^verbatim>\<open>object\<close> when
  the descriptor calculator left something else in a cell. Column labels are taken to be
  distinct, as the calculator's are. What \<^verbatim>\<open>pd.to_numeric\<close> makes of an object cell is a
  parameter \<open>coerce\<close>: its number, or \<open>None\<close> where \<^verbatim>\<open>errors='coerce'\<close> puts NaN.
\<close>

datatype 'o column =
    Int64 "int list"
  | Float64 "real option list"
  | Bool "bool list"
  | Object "'o list"

type_synonym 'o dataframe = "(string \<times> 'o column) list"

text \<open>After \<^verbatim>\<open>pd.to_numeric\<close> every column has a numeric dtype.\<close>

datatype numeric_column =
    NInt64 "int list"
  | NFloat64 "real option list"
  | NBool "bool list"

type_synonym numeric_frame = "(string \<times> numeric_column) list"

text \<open>\<^verbatim>\<open>select_dtypes(include=['int64', 'float64'])\<close>.\<close>

fun is_int64_or_float64 :: "'o column \<Rightarrow> bool" where
  "is_int64_or_float64 (Int64 xs) = True"
| "is_int64_or_float64 (Float64 xs) = True"
| "is_int64_or_float64 (Bool bs) = False"
| "is_int64_or_float64 (Object os) = False"

text \<open>The values of a float column that are not NaN.\<close>

fun present :: "real option list \<Rightarrow> real list" where
  "present [] = []"
| "present (None # xs) = present xs"
| "present (Some x # xs) = x # present xs"

definition np_mean :: "real list \<Rightarrow> real" where
  "np_mean xs = sum_list xs / real (length xs)"

text \<open>
  pandas computes a standard deviation in 64-bit floating point, and the notebook compares
  the number it reports with 0. What pandas reports for the values of a column that are
  present is therefore a parameter \<open>std\<close> of the model (\<open>None\<close> is NaN), not the exact
  standard deviation: rounding can make the reported number differ from zero for a column
  whose entries are all equal, and equal to zero for a column whose entries differ.
\<close>

type_synonym reported_std = "real list \<Rightarrow> real option"

text \<open>
  The exact sample standard deviation (\<^verbatim>\<open>ddof=1\<close>, undefined below two values) is the
  instance of \<open>std\<close> in the examples. Their columns hold a few small whole numbers, for
  which every step of the floating-point computation before the final square root is
  exact, so that pandas reports zero for them exactly where this function does.
\<close>

definition exact_std :: reported_std where
  "exact_std xs =
     (if length xs < 2 then None
      else Some (sqrt (sum_list (map (\<lambda>x. (x - np_mean xs) ^ 2) xs) / real (length xs - 1))))"

definition bool_as_float :: "bool \<Rightarrow> real" where
  "bool_as_float b = (if b then 1 else 0)"

text \<open>
  \<^verbatim>\<open>Series.std()\<close> of a column of any dtype (booleans count as 0 and 1, object cells by
  their numeric reading), and the \<^verbatim>\<open>std\<close> row of \<^verbatim>\<open>describe()\<close>, which the notebook computes
  for the selected \<^verbatim>\<open>int64\<close> and \<^verbatim>\<open>float64\<close> columns only. Both are what pandas reports.
\<close>

fun series_std :: "reported_std \<Rightarrow> ('o \<Rightarrow> real option) \<Rightarrow> 'o column \<Rightarrow> real option" where
  "series_std std coerce (Int64 xs) = std (map real_of_int xs)"
| "series_std std coerce (Float64 xs) = std (present xs)"
| "series_std std coerce (Bool bs) = std (map bool_as_float bs)"
| "series_std std coerce (Object os) = std (present (map coerce os))"

fun describe_std :: "reported_std \<Rightarrow> 'o column \<Rightarrow> real option" where
  "describe_std std (Int64 xs) = std (map real_of_int xs)"
| "describe_std std (Float64 xs) = std (present xs)"
| "describe_std std (Bool bs) = None"
| "describe_std std (Object os) = None"

text \<open>\<^verbatim>\<open>pd.to_numeric(column, errors='coerce')\<close> and \<^verbatim>\<open>column.isnull().any()\<close>.\<close>

fun to_numeric :: "('o \<Rightarrow> real option) \<Rightarrow> 'o column \<Rightarrow> numeric_column" where
  "to_numeric coerce (Int64 xs) = NInt64 xs"
| "to_numeric coerce (Float64 xs) = NFloat64 xs"
| "to_numeric coerce (Bool bs) = NBool bs"
| "to_numeric coerce (Object os) = NFloat64 (map coerce os)"

fun isnull_any :: "numeric_column \<Rightarrow> bool" where
  "isnull_any (NInt64 xs) = False"
| "isnull_any (NFloat64 xs) = list_ex (\<lambda>v. v = None) xs"
| "isnull_any (NBool bs) = False"

text \<open>
  The feature selection of the descriptor section, cell by cell: the \<^verbatim>\<open>int64\<close> and
  \<^verbatim>\<open>float64\<close> columns are described (\<^verbatim>\<open>describe()\<close> refuses a frame without columns), the
  columns among them whose reported \<^verbatim>\<open>std\<close> equals 0 are dropped by label, every remaining
  column is coerced to numbers, and the columns with a missing value are left out.
\<close>

definition feature_selection ::
  "reported_std \<Rightarrow> ('o \<Rightarrow> real option) \<Rightarrow> 'o dataframe \<Rightarrow> exn + numeric_frame" where
  "feature_selection std coerce desc =
     (let numeric_cols = filter (\<lambda>(name, c). is_int64_or_float64 c) desc in
      if numeric_cols = [] then Inl ValueError
      else
        let zero_std_cols = map fst (filter (\<lambda>(name, c). describe_std std c = Some 0) numeric_cols);
            dropped = filter (\<lambda>(name, c). name \<notin> set zero_std_cols) desc;
            coerced = map (\<lambda>(name, c). (name, to_numeric coerce c)) dropped;
            missing_values = map (\<lambda>(name, c). isnull_any c) coerced
        in Inr (map fst (filter (\<lambda>(nc, missing). \<not> missing) (zip coerced missing_values))))"

text \<open>
  \<^verbatim>\<open>StandardScaler().fit_transform\<close>. The table is read as an array of floats, column by
  column; an array without a column or without a row is refused. The statistics of a
  column are taken over its values that are present: the mean, the population variance
  (\<^verbatim>\<open>ddof=0\<close>) and its square root as the scale, where a scale of 0 is replaced by 1. NaN
  stays NaN.
\<close>

fun as_floats :: "numeric_column \<Rightarrow> real option list" where
  "as_floats (NInt64 xs) = map (\<lambda>x. Some (real_of_int x)) xs"
| "as_floats (NFloat64 xs) = xs"
| "as_floats (NBool bs) = map (\<lambda>b. Some (bool_as_float b)) bs"

definition np_var :: "real list \<Rightarrow> real" where
  "np_var xs = sum_list (map (\<lambda>x. (x - np_mean xs) ^ 2) xs) / real (length xs)"

definition np_std :: "real list \<Rightarrow> real" where
  "np_std xs = sqrt (np_var xs)"

definition scale_of :: "real list \<Rightarrow> real" where
  "scale_of xs = (if np_std xs = 0 then 1 else np_std xs)"

definition standardize :: "real option list \<Rightarrow> real option list" where
  "standardize col =
     map (map_option (\<lambda>x. (x - np_mean (present col)) / scale_of (present col))) col"

definition StandardScaler_fit_transform :: "numeric_frame \<Rightarrow> exn + real option list list" where
  "StandardScaler_fit_transform desc =
     (if desc = [] then Inl ValueError
      else if as_floats (snd (hd desc)) = [] then Inl ValueError
      else Inr (map (\<lambda>(name, c). standardize (as_floats c)) desc))"

text \<open>A column all of whose entries are equal.\<close>

definition constant_column :: "real list \<Rightarrow> bool" where
  "constant_column xs = list_all (\<lambda>x. x = hd xs) xs"

text \<open>
  A table of two molecules with an atom count and the boolean Lipinski flag, which is true
  of both; nothing in it needs coercion.
\<close>

definition two_molecules :: "string dataframe" where
  "two_molecules = [(''nAtom'', Int64 [5, 7]), (''Lipinski'', Bool [True, True])]"

definition no_number :: "string \<Rightarrow> real option" where
  "no_number s = None"


text \<open>
  A table with a constant count, a float column with a gap and a column of names.
\<close>

definition with_gaps :: "string dataframe" where
  "with_gaps = [(''nAtom'', Int64 [5, 7]), (''nRing'', Int64 [1, 1]),
                (''LogP'', Float64 [Some 1, None]), (''Name'', Object [''a'', ''b''])]"


section \<open>Libraries that cooperate, and a small instance\<close>

text \<open>
  Conditions under which no call of the sweep raises: a SMILES string parses whatever
  the state of the toolkit, the learner's calls return, and a sample of a given size can
  be drawn from a frame and holds at least one row and only SMILES strings that parse.
\<close>

definition parses :: "('mol, 'w) toolkit \<Rightarrow> string \<Rightarrow> bool" where
  "parses T s \<longleftrightarrow> (\<forall>w. fst (MolFromSmiles T s w) \<noteq> None)"

definition learner_total :: "('knn, 'w) sklearn \<Rightarrow> bool" where
  "learner_total L \<longleftrightarrow>
     (\<forall>k X y w. \<exists>k'. fst (knn_fit L k X y w) = Inr k') \<and>
     (\<forall>k X w. \<exists>p. fst (knn_predict L k X w) = Inr p) \<and>
     (\<forall>y p w. \<exists>v. fst (r2_score L y p w) = Inr v) \<and>
     (\<forall>y p w. \<exists>v. fst (mean_absolute_error L y p w) = Inr v)"

definition samples_well ::
  "('mol, 'w) toolkit \<Rightarrow> ('knn, 'w) sklearn \<Rightarrow> frame \<Rightarrow> int \<Rightarrow> bool" where
  "samples_well T L train s \<longleftrightarrow>
     (\<forall>w. \<exists>sub. fst (sample L train s w) = Inr sub \<and> sub \<noteq> [] \<and>
        list_all (\<lambda>r. parses T (smiles_0 r)) sub)"

text \<open>
  The state of the notebook in which the sweep of \<open>nb\<close> can go on: both partitions are
  those of \<open>nb\<close>, the transformer's attributes are in the toolkit's range, and the test
  partition is not empty and parses.
\<close>

definition ready ::
  "('mol, 'w) toolkit \<Rightarrow> ('knn, 'w) notebook \<Rightarrow> ('knn, 'w) notebook \<Rightarrow> bool" where
  "ready T nb st \<longleftrightarrow>
     train_data st = train_data nb \<and> test_data st = test_data nb \<and>
     0 < length_attr (fingerprint (model st)) \<and> length_attr (fingerprint (model st)) < 2 ^ 32 \<and>
     0 \<le> radius_attr (fingerprint (model st)) \<and> radius_attr (fingerprint (model st)) < 2 ^ 32 \<and>
     test_data nb \<noteq> [] \<and> list_all (\<lambda>r. parses T (smiles_0 r)) (test_data nb)"

text \<open>
  A toolkit that knows three molecules and counts its calls in the libraries' state, a
  sampler that takes the first rows of the frame rotated by that state and refuses a
  sample larger than the frame, and a learner with constant answers.
\<close>

definition toy_toolkit :: "(string, nat) toolkit" where
  "toy_toolkit =
     \<lparr>MolFromSmiles = (\<lambda>s w. (if s \<in> set [''C'', ''CCC'', ''C=O''] then Some s else None, Suc w)),
      morgan_environments = (\<lambda>m r w. (map of_char m, Suc w)),
      generator_environments = (\<lambda>m g w. (map of_char m, Suc w))\<rparr>"

definition toy_sklearn :: "(unit, nat) sklearn" where
  "toy_sklearn =
     \<lparr>sample = (\<lambda>fr s w.
        if 0 \<le> s \<and> s \<le> int (length fr) then (Inr (take (nat s) (rotate w fr)), Suc w)
        else (Inl ValueError, w)),
      knn_fit = (\<lambda>k X y w. (Inr (), w)),
      knn_predict = (\<lambda>k X w. (Inr (replicate (length X) 0), w)),
      r2_score = (\<lambda>y p w. (Inr 0, w)),
      mean_absolute_error = (\<lambda>y p w. (Inr 1, w))\<rparr>"

definition methane :: row where
  "methane = \<lparr>smiles_0 = ''C'', bandgap = 1\<rparr>"

definition toy_notebook :: "nat \<Rightarrow> (unit, nat) notebook" where
  "toy_notebook n =
     \<lparr>train_data = replicate n methane, test_data = [methane],
      model = \<lparr>fingerprint = init_transformer 256 4, knn = ()\<rparr>,
      results = [], subset_var = [], y_pred = [], libs = 0\<rparr>"


section \<open>Properties\<close>

lemma py_return_apply: "py_return a s = (Inr a, s)"
  by (simp add: py_return_def)

lemma py_raise_apply: "py_raise e s = (Inl e, s)"
  by (simp add: py_raise_def)

lemma py_bind_apply:
  "py_bind m f s = (case fst (m s) of Inl e \<Rightarrow> (Inl e, snd (m s)) | Inr a \<Rightarrow> f a (snd (m s)))"
  by (simp add: py_bind_def split: prod.splits sum.splits)

lemma total_call_apply: "total_call m s = (Inr (fst (m s)), snd (m s))"
  by (simp add: total_call_def split: prod.splits)

lemmas py_simps = py_return_apply py_raise_apply py_bind_apply total_call_apply

subsection \<open>Bit vectors and the fingerprint functions\<close>

lemma length_hashed_bit_vect: "length (hashed_bit_vect n hs) = n"
proof -
  have "length (fold (\<lambda>h bv. bv[h mod n := True]) hs bv) = length bv" for bv
    by (induction hs arbitrary: bv) auto
  then show ?thesis by (simp add: hashed_bit_vect_def)
qed

lemma fold_store_upt:
  "k \<le> length bv \<Longrightarrow> length a = length bv \<Longrightarrow>
   fold (\<lambda>i a. a[i := bv ! i]) [0..<k] a = take k bv @ drop k a"
proof (induction k)
  case 0
  then show ?case by simp
next
  case (Suc k)
  then have "fold (\<lambda>i a. a[i := bv ! i]) [0..<Suc k] a = (take k bv @ drop k a)[k := bv ! k]"
    by simp
  also have "\<dots> = take k bv @ (drop k a)[0 := bv ! k]"
    using Suc.prems by (simp add: list_update_append)
  also have "\<dots> = take (Suc k) bv @ drop (Suc k) a"
    using Suc.prems by (simp add: take_Suc_conv_app_nth Cons_nth_drop_Suc [symmetric])
  finally show ?case .
qed

lemma ConvertToNumpyArray_eq: "ConvertToNumpyArray bv arr = bv"
proof -
  have "length (np_resize (length bv) arr) = length bv"
    by (simp add: np_resize_def)
  then show ?thesis
    unfolding ConvertToNumpyArray_def by (subst fold_store_upt) simp_all
qed

lemma as_unsigned_int_ok:
  "0 \<le> n \<Longrightarrow> n < 2 ^ 32 \<Longrightarrow> as_unsigned_int n = py_return (nat n)"
  by (simp add: as_unsigned_int_def)

lemma compute_morgan_fingerprints_length:
  assumes "fst (MolFromSmiles T smiles w) = Some m"
    and "0 < fingerprint_length" "fingerprint_length < 2 ^ 32"
    and "0 \<le> fingerprint_radius" "fingerprint_radius < 2 ^ 32"
  shows "\<exists>arr. fst (compute_morgan_fingerprints T smiles fingerprint_length fingerprint_radius w) = Inr arr
           \<and> int (length arr) = fingerprint_length"
  using assms
  by (simp add: compute_morgan_fingerprints_def GetMorganFingerprintAsBitVect_def
      as_unsigned_int_ok ConvertToNumpyArray_eq length_hashed_bit_vect py_simps)

lemma unparsable:
  assumes "fst (MolFromSmiles T smiles w) = None"
  shows "fst (compute_morgan_fingerprints T smiles n r w) = Inl ArgumentError"
  using assms
  by (simp add: compute_morgan_fingerprints_def GetMorganFingerprintAsBitVect_def py_simps)

subsection \<open>One iteration of the sweep\<close>

lemma library_apply: "library m nb = (fst (m (libs nb)), nb\<lparr>libs := snd (m (libs nb))\<rparr>)"
  by (simp add: library_def split: prod.splits)

lemma assign_apply: "assign f s = (Inr (), f s)"
  by (simp add: assign_def)

lemmas nb_simps = py_simps library_apply assign_apply

lemma pipeline_fit_frame:
  assumes "pipeline_fit T L X y nb = (out, nb')"
  shows "train_data nb' = train_data nb \<and> test_data nb' = test_data nb \<and> results nb' = results nb
     \<and> subset_var nb' = subset_var nb \<and> y_pred nb' = y_pred nb
     \<and> fingerprint (model nb') = fingerprint (model nb)"
  using assms by (auto simp: pipeline_fit_def fit_def nb_simps split: sum.splits)

lemma pipeline_predict_frame:
  assumes "pipeline_predict T L X nb = (out, nb')"
  shows "train_data nb' = train_data nb \<and> test_data nb' = test_data nb \<and> results nb' = results nb
     \<and> subset_var nb' = subset_var nb \<and> y_pred nb' = y_pred nb \<and> model nb' = model nb"
  using assms by (auto simp: pipeline_predict_def nb_simps split: sum.splits)

lemma pipeline_predict_value:
  assumes "pipeline_predict T L X nb = (Inr yp, nb')"
  shows "\<exists>t Xt k w1 w2. fst (transform T t X w1) = Inr Xt \<and> fst (knn_predict L k Xt w2) = Inr yp"
  using assms by (auto simp: pipeline_predict_def nb_simps split: sum.splits)

lemma scored_againstI:
  "fst (transform T t (map smiles_0 test) w1) = Inr Xt \<Longrightarrow>
   fst (knn_predict L k Xt w2) = Inr yp \<Longrightarrow>
   fst (r2_score L (map bandgap test) yp w3) = Inr r2 \<Longrightarrow>
   fst (mean_absolute_error L (map bandgap test) yp w4) = Inr mae \<Longrightarrow>
   scored_against T L test r2 mae"
  unfolding scored_against_def by blast

lemma sweep_iteration_effect:
  assumes "sweep_iteration T L l s i nb = (out, nb')"
  shows "train_data nb' = train_data nb \<and> test_data nb' = test_data nb
     \<and> fingerprint (model nb') = fingerprint (model nb)
     \<and> (case out of
          Inl e \<Rightarrow> results nb' = results nb
        | Inr u \<Rightarrow> (\<exists>a b. results nb' = results nb @ [result_record l s i a b]
                       \<and> scored_against T L (test_data nb) a b))"
proof -
  obtain o1 n1 where s1: "library (sample L (train_data nb) s) nb = (o1, n1)" by fastforce
  have f1: "train_data n1 = train_data nb \<and> test_data n1 = test_data nb \<and> results n1 = results nb
     \<and> model n1 = model nb"
    using s1 by (auto simp: library_apply)
  show ?thesis
  proof (cases o1)
    case (Inl e)
    then show ?thesis using assms s1 f1 by (auto simp: sweep_iteration_def py_bind_apply)
  next
    case (Inr sub)
    define n2 where "n2 = n1\<lparr>subset_var := sub\<rparr>"
    obtain o3 n3 where s3: "pipeline_fit T L (map smiles_0 (subset_var n2)) (map bandgap (subset_var n2)) n2 = (o3, n3)"
      by fastforce
    note f3 = pipeline_fit_frame [OF s3]
    have rest: "sweep_iteration T L l s i nb =
      (case o3 of Inl e \<Rightarrow> (Inl e, n3) | Inr u \<Rightarrow>
         py_bind (\<lambda>nb. pipeline_predict T L (map smiles_0 (test_data nb)) nb) (\<lambda>yp.
     py_bind (assign (\<lambda>nb. nb\<lparr>y_pred := yp\<rparr>)) (\<lambda>u.
     py_bind (\<lambda>nb. library (r2_score L (map bandgap (test_data nb)) (y_pred nb)) nb) (\<lambda>r2.
     py_bind (\<lambda>nb. library (mean_absolute_error L (map bandgap (test_data nb)) (y_pred nb)) nb)
       (\<lambda>mae.
     assign (\<lambda>nb. nb\<lparr>results := results nb @ [result_record l s i r2 mae]\<rparr>))))) n3)"
      using s1 Inr s3 by (simp add: sweep_iteration_def py_bind_apply assign_apply n2_def split: sum.splits)
    show ?thesis
    proof (cases o3)
      case (Inl e)
      then show ?thesis using assms rest f1 f3 by (auto simp: n2_def)
    next
      case (Inr u3)
      obtain o4 n4 where s4: "pipeline_predict T L (map smiles_0 (test_data n3)) n3 = (o4, n4)"
        by fastforce
      note f4 = pipeline_predict_frame [OF s4]
      show ?thesis
      proof (cases o4)
        case (Inl e)
        then show ?thesis using assms rest Inr s4 f1 f3 f4
          by (auto simp: n2_def py_bind_apply)
      next
        case yp: (Inr yp)
        from s4 yp pipeline_predict_value obtain t Xt k w1 w2 where
          pv: "fst (transform T t (map smiles_0 (test_data n3)) w1) = Inr Xt"
              "fst (knn_predict L k Xt w2) = Inr yp"
          by blast
        have same: "test_data n3 = test_data nb" "test_data n4 = test_data nb"
          using f1 f3 f4 by (simp_all add: n2_def)
        show ?thesis
          using assms rest Inr s4 yp f1 f3 f4 pv same
          by (auto simp: n2_def nb_simps split: sum.splits) (blast intro: scored_againstI)
      qed
    qed
  qed
qed

subsection \<open>The loops\<close>

lemma appends_iteration: "appends T L [(l, s, i)] (sweep_iteration T L l s i)"
  unfolding appends_def
proof (intro allI impI)
  fix nb out nb'
  assume run: "sweep_iteration T L l s i nb = (out, nb')"
  note eff = sweep_iteration_effect [OF run]
  show "train_data nb' = train_data nb \<and> test_data nb' = test_data nb \<and>
        (\<exists>n rs. results nb' = results nb @ rs \<and> n \<le> length [(l, s, i)] \<and>
           (case out of Inr u \<Rightarrow> n = length [(l, s, i)] | Inl e \<Rightarrow> n < length [(l, s, i)]) \<and>
           list_all2 (recorded T L (test_data nb)) (take n [(l, s, i)]) rs)"
  proof (cases out)
    case (Inl e)
    with eff show ?thesis by (intro conjI exI [of _ 0] exI [of _ "[]"]) simp_all
  next
    case (Inr u)
    with eff obtain a b where "results nb' = results nb @ [result_record l s i a b]"
      "scored_against T L (test_data nb) a b" by auto
    with eff Inr show ?thesis
      by (intro conjI exI [of _ 1] exI [of _ "[result_record l s i a b]"])
         (auto simp: recorded_def)
  qed
qed

lemma appends_for_loop:
  assumes "\<And>x. x \<in> set xs \<Longrightarrow> appends T L (K x) (body x)"
  shows "appends T L (concat (map K xs)) (for_loop body xs)"
  using assms
proof (induction xs)
  case Nil
  show ?case by (auto simp: appends_def)
next
  case (Cons x xs)
  have hd: "appends T L (K x) (body x)" using Cons.prems by simp
  have tl: "appends T L (concat (map K xs)) (for_loop body xs)"
    using Cons by simp
  show ?case
    unfolding appends_def
  proof (intro allI impI)
    fix nb out nb'
    assume run: "for_loop body (x # xs) nb = (out, nb')"
    obtain o1 n1 where b1: "body x nb = (o1, n1)" by fastforce
    from hd b1 obtain n rs where h:
      "train_data n1 = train_data nb" "test_data n1 = test_data nb"
      "results n1 = results nb @ rs" "n \<le> length (K x)"
      "case o1 of Inr u \<Rightarrow> n = length (K x) | Inl e \<Rightarrow> n < length (K x)"
      "list_all2 (recorded T L (test_data nb)) (take n (K x)) rs"
      unfolding appends_def by blast
    let ?goal = "train_data nb' = train_data nb \<and> test_data nb' = test_data nb \<and>
        (\<exists>n rs. results nb' = results nb @ rs \<and> n \<le> length (concat (map K (x # xs))) \<and>
           (case out of Inr u \<Rightarrow> n = length (concat (map K (x # xs)))
            | Inl e \<Rightarrow> n < length (concat (map K (x # xs)))) \<and>
           list_all2 (recorded T L (test_data nb)) (take n (concat (map K (x # xs)))) rs)"
    show ?goal
    proof (cases o1)
      case (Inl e)
      with run b1 have "out = Inl e" "nb' = n1" by simp_all
      with h Inl show ?thesis
        by (intro conjI exI [of _ n] exI [of _ rs]) simp_all
    next
      case (Inr u)
      with run b1 have r2: "for_loop body xs n1 = (out, nb')" by simp
      from tl r2 obtain n' rs' where t:
        "train_data nb' = train_data n1" "test_data nb' = test_data n1"
        "results nb' = results n1 @ rs'" "n' \<le> length (concat (map K xs))"
        "case out of Inr u \<Rightarrow> n' = length (concat (map K xs)) | Inl e \<Rightarrow> n' < length (concat (map K xs))"
        "list_all2 (recorded T L (test_data n1)) (take n' (concat (map K xs))) rs'"
        unfolding appends_def by blast
      from h Inr have n: "n = length (K x)" by simp
      have "list_all2 (recorded T L (test_data nb)) (K x @ take n' (concat (map K xs))) (rs @ rs')"
        using h t n by (auto intro: list_all2_appendI)
      with h t n show ?thesis
        by (intro conjI exI [of _ "length (K x) + n'"] exI [of _ "rs @ rs'"])
           (auto split: sum.splits)
    qed
  qed
qed

lemma appends_set_params:
  assumes "appends T L ks m"
  shows "appends T L ks (py_bind (set_params_fingerprint_length l) (\<lambda>u. m))"
  unfolding appends_def
proof (intro allI impI)
  fix nb out nb'
  assume "py_bind (set_params_fingerprint_length l) (\<lambda>u. m) nb = (out, nb')"
  then have "m (nb\<lparr>model := (model nb)\<lparr>fingerprint := (fingerprint (model nb))\<lparr>length_attr := l\<rparr>\<rparr>\<rparr>) = (out, nb')"
    by (simp add: set_params_fingerprint_length_def nb_simps)
  with assms show "train_data nb' = train_data nb \<and> test_data nb' = test_data nb \<and>
        (\<exists>n rs. results nb' = results nb @ rs \<and> n \<le> length ks \<and>
           (case out of Inr u \<Rightarrow> n = length ks | Inl e \<Rightarrow> n < length ks) \<and>
           list_all2 (recorded T L (test_data nb)) (take n ks) rs)"
    unfolding appends_def by fastforce
qed

lemma length_sweep_keys: "length sweep_keys = 336"
  by (simp add: sweep_keys_def swept_lengths_def swept_sizes_def py_range_def)

lemma sweep_cases:
  assumes "sweep T L nb = (out, nb')"
  shows "train_data nb' = train_data nb \<and> test_data nb' = test_data nb \<and>
     (\<exists>n. n \<le> 336 \<and> (case out of Inr u \<Rightarrow> n = 336 | Inl e \<Rightarrow> n < 336) \<and>
        list_all2 (recorded T L (test_data nb)) (take n sweep_keys) (results nb'))"
proof -
  let ?loops = "for_loop (\<lambda>l.
       py_bind (set_params_fingerprint_length l) (\<lambda>u.
       for_loop (\<lambda>s.
         for_loop (\<lambda>i. sweep_iteration T L l s i) (py_range 16))
         swept_sizes))
       swept_lengths"
  have inner: "appends T L (map (\<lambda>i. (l, s, i)) (py_range 16))
      (for_loop (\<lambda>i. sweep_iteration T L l s i) (py_range 16))" for l s
    using appends_for_loop [of "py_range 16" T L "\<lambda>i. [(l, s, i)]" "\<lambda>i. sweep_iteration T L l s i"]
    by (simp add: appends_iteration concat_map_singleton)
  have middle: "appends T L (concat (map (\<lambda>s. map (\<lambda>i. (l, s, i)) (py_range 16)) swept_sizes))
      (for_loop (\<lambda>s. for_loop (\<lambda>i. sweep_iteration T L l s i) (py_range 16)) swept_sizes)" for l
    by (rule appends_for_loop) (rule inner)
  have outer: "appends T L sweep_keys ?loops"
    unfolding sweep_keys_def
    by (rule appends_for_loop) (rule appends_set_params, rule middle)
  have run: "?loops (nb\<lparr>results := []\<rparr>) = (out, nb')"
    using assms by (simp add: sweep_def nb_simps)
  from outer run obtain n rs where
    "train_data nb' = train_data (nb\<lparr>results := []\<rparr>)"
    "test_data nb' = test_data (nb\<lparr>results := []\<rparr>)"
    "results nb' = results (nb\<lparr>results := []\<rparr>) @ rs" "n \<le> length sweep_keys"
    "case out of Inr u \<Rightarrow> n = length sweep_keys | Inl e \<Rightarrow> n < length sweep_keys"
    "list_all2 (recorded T L (test_data (nb\<lparr>results := []\<rparr>))) (take n sweep_keys) rs"
    unfolding appends_def by blast
  then show ?thesis
    by (intro conjI exI [of _ n]) (simp_all add: length_sweep_keys split: sum.splits)
qed

subsection \<open>Loop positions\<close>

lemma nth_concat_blocks:
  assumes "\<And>x. x \<in> set xs \<Longrightarrow> length (f x) = m" and "j < length xs * m"
  shows "concat (map f xs) ! j = f (xs ! (j div m)) ! (j mod m)"
  using assms
proof (induction xs arbitrary: j)
  case Nil
  then show ?case by simp
next
  case (Cons x xs)
  have m: "0 < m" using Cons.prems(2) by (cases m) auto
  have lx: "length (f x) = m" using Cons.prems(1) by simp
  show ?case
  proof (cases "j < m")
    case True
    then show ?thesis using lx by (simp add: nth_append)
  next
    case False
    then have ge: "m \<le> j" by simp
    have j': "j - m < length xs * m" using Cons.prems(2) ge by simp
    have d: "j div m = Suc ((j - m) div m)"
      using ge m by (simp add: le_div_geq)
    have r: "j mod m = (j - m) mod m"
      using ge by (simp add: le_mod_geq)
    have "concat (map f (x # xs)) ! j = concat (map f xs) ! (j - m)"
      using False lx by (simp add: nth_append)
    also have "\<dots> = f (xs ! ((j - m) div m)) ! ((j - m) mod m)"
      using Cons.IH [OF _ j'] Cons.prems(1) by simp
    finally show ?thesis by (simp add: d r)
  qed
qed

lemma length_py_range [simp]: "length (py_range n) = n"
  by (simp add: py_range_def)

lemma nth_py_range: "i < n \<Longrightarrow> py_range n ! i = int i"
  by (simp add: py_range_def)

lemma nth_sweep_keys:
  assumes "j < 336"
  shows "sweep_keys ! j = (swept_lengths ! (j div 112), swept_sizes ! (j mod 112 div 16), int (j mod 16))"
proof -
  let ?inner = "\<lambda>l s. map (\<lambda>i. (l, s, i)) (py_range 16)"
  let ?mid = "\<lambda>l. concat (map (?inner l) swept_sizes)"
  have lm: "length (?mid l) = 112" for l
    by (simp add: swept_sizes_def)
  have "sweep_keys ! j = ?mid (swept_lengths ! (j div 112)) ! (j mod 112)"
    unfolding sweep_keys_def
    by (rule nth_concat_blocks) (use assms lm in \<open>simp_all add: swept_lengths_def\<close>)
  also have "\<dots> = ?inner (swept_lengths ! (j div 112)) (swept_sizes ! (j mod 112 div 16)) ! (j mod 112 mod 16)"
    by (rule nth_concat_blocks) (simp_all add: swept_sizes_def)
  also have "\<dots> = (swept_lengths ! (j div 112), swept_sizes ! (j mod 112 div 16), int (j mod 112 mod 16))"
    by (simp add: nth_py_range)
  also have "j mod 112 mod 16 = j mod 16"
    by (simp add: mod_mod_cancel)
  finally show ?thesis .
qed

lemma sweep_results_nth:
  assumes "sweep T L nb = (out, nb')" and "j < length (results nb')"
  shows "j < 336 \<and> recorded T L (test_data nb) (sweep_keys ! j) (results nb' ! j)"
proof -
  from sweep_cases [OF assms(1)] obtain n where n: "n \<le> 336"
    "list_all2 (recorded T L (test_data nb)) (take n sweep_keys) (results nb')"
    by blast
  then have len: "length (results nb') = n"
    by (auto dest!: list_all2_lengthD simp: length_sweep_keys)
  with assms(2) n have "j < 336" by simp
  moreover have "recorded T L (test_data nb) (take n sweep_keys ! j) (results nb' ! j)"
    using n(2) assms(2) len by (auto dest: list_all2_nthD2)
  ultimately show ?thesis using assms(2) len by simp
qed

lemma index_of_lengths: "a < 3 \<Longrightarrow> index_of swept_lengths (swept_lengths ! a) = Some a"
proof -
  assume "a < 3"
  then consider "a = 0" | "a = 1" | "a = 2" by linarith
  then show ?thesis by cases (simp_all add: swept_lengths_def)
qed

lemma index_of_sizes: "b < 7 \<Longrightarrow> index_of swept_sizes (swept_sizes ! b) = Some b"
proof -
  assume "b < 7"
  then consider "b = 0" | "b = 1" | "b = 2" | "b = 3" | "b = 4" | "b = 5" | "b = 6" by linarith
  then show ?thesis by cases (simp_all add: swept_sizes_def)
qed

lemma loop_position_record:
  assumes "a < 3" "b < 7"
  shows "loop_position (result_record (swept_lengths ! a) (swept_sizes ! b) i r2 mae) = Some (a, b, i)"
  using assms
  by (simp add: loop_position_def int_field_def result_record_def index_of_lengths index_of_sizes)

lemma position_bounds: "j < 336 \<Longrightarrow> j div 112 < 3 \<and> j mod 112 div 16 < (7::nat)"
proof
  assume "j < 336"
  then show "j div 112 < 3" by (simp add: div_less_iff_less_mult)
next
  have "j mod 112 < 112" by simp
  then show "j mod 112 div 16 < 7" by (simp add: div_less_iff_less_mult)
qed

lemma div_mod_less:
  assumes "x < (y::nat)"
  shows "x div m < y div m \<or> (x div m = y div m \<and> x mod m < y mod m)"
proof (cases "x div m = y div m")
  case True
  have "m * (x div m) + x mod m < m * (y div m) + y mod m"
    using assms by (simp only: mult_div_mod_eq)
  then have "x mod m < y mod m"
    by (simp only: True nat_add_left_cancel_less)
  with True show ?thesis by simp
next
  case False
  moreover have "x div m \<le> y div m" using assms by (simp add: div_le_mono)
  ultimately show ?thesis by simp
qed

lemma precedes_positions:
  assumes "j < (k::nat)"
  shows "precedes (j div 112, j mod 112 div 16, int (j mod 16)) (k div 112, k mod 112 div 16, int (k mod 16))"
proof -
  have m: "n mod 112 mod 16 = n mod 16" for n :: nat
    by (simp add: mod_mod_cancel)
  from div_mod_less [OF assms, of 112] show ?thesis
  proof
    assume "j div 112 < k div 112"
    then show ?thesis by simp
  next
    assume eq: "j div 112 = k div 112 \<and> j mod 112 < k mod 112"
    then have "j mod 112 div 16 < k mod 112 div 16 \<or>
               (j mod 112 div 16 = k mod 112 div 16 \<and> j mod 112 mod 16 < k mod 112 mod 16)"
      by (intro div_mod_less) simp
    with eq show ?thesis by (auto simp: m)
  qed
qed

subsection \<open>The cell as a sequence of steps\<close>

lemma for_loop_append:
  "for_loop body (xs @ ys) s =
     (case for_loop body xs s of (Inl e, s') \<Rightarrow> (Inl e, s') | (Inr u, s') \<Rightarrow> for_loop body ys s')"
  by (induction xs arbitrary: s) (auto split: prod.splits sum.splits)

lemma for_loop_map: "for_loop body (map f xs) s = for_loop (\<lambda>x. body (f x)) xs s"
  by (induction xs arbitrary: s) (auto split: prod.splits sum.splits)

lemma for_loop_concat_map:
  "for_loop body (concat (map f xs)) s = for_loop (\<lambda>x. for_loop body (f x)) xs s"
  by (induction xs arbitrary: s) (auto simp: for_loop_append split: prod.splits sum.splits)

lemma for_loop_cong_body:
  "(\<And>x s. x \<in> set xs \<Longrightarrow> f x s = g x s) \<Longrightarrow> for_loop f xs s = for_loop g xs s"
  by (induction xs arbitrary: s) (auto split: prod.splits sum.splits)

lemma sweep_as_steps:
  "sweep T L nb = for_loop (run_step T L) sweep_steps (nb\<lparr>results := []\<rparr>)"
proof -
  have inner: "for_loop (run_step T L) (map (\<lambda>i. Iteration l s i) (py_range 16)) =
      for_loop (\<lambda>i. sweep_iteration T L l s i) (py_range 16)" for l s
    by (rule ext) (simp add: for_loop_map)
  have middle: "for_loop (run_step T L)
        (concat (map (\<lambda>s. map (\<lambda>i. Iteration l s i) (py_range 16)) swept_sizes)) st =
      for_loop (\<lambda>s. for_loop (\<lambda>i. sweep_iteration T L l s i) (py_range 16)) swept_sizes st"
    for l st
    by (simp add: for_loop_concat_map inner)
  have block: "for_loop (run_step T L)
        (SetLength l # concat (map (\<lambda>s. map (\<lambda>i. Iteration l s i) (py_range 16)) swept_sizes)) st =
      py_bind (set_params_fingerprint_length l) (\<lambda>u.
        for_loop (\<lambda>s. for_loop (\<lambda>i. sweep_iteration T L l s i) (py_range 16)) swept_sizes) st"
    for l st
    by (simp add: middle set_params_fingerprint_length_def py_bind_apply assign_apply)
  have "for_loop (run_step T L) sweep_steps st =
      for_loop (\<lambda>l. py_bind (set_params_fingerprint_length l) (\<lambda>u.
        for_loop (\<lambda>s. for_loop (\<lambda>i. sweep_iteration T L l s i) (py_range 16)) swept_sizes))
        swept_lengths st" for st
    unfolding sweep_steps_def for_loop_concat_map
    by (rule for_loop_cong_body) (rule block)
  then show ?thesis
    by (simp add: sweep_def py_bind_apply assign_apply)
qed

lemma steps_record_count:
  assumes "for_loop (run_step T L) pre st = (Inr (), st')"
  shows "length (results st') = length (results st) + length (filter is_iteration pre)"
  using assms
proof (induction pre arbitrary: st)
  case Nil
  then show ?case by simp
next
  case (Cons x pre)
  obtain o1 s1 where b: "run_step T L x st = (o1, s1)" by fastforce
  with Cons.prems have ok: "o1 = Inr ()" and rest: "for_loop (run_step T L) pre s1 = (Inr (), st')"
    by (auto split: sum.splits)
  have "length (results s1) = length (results st) + (if is_iteration x then 1 else 0)"
  proof (cases x)
    case (SetLength l)
    with b show ?thesis by (auto simp: set_params_fingerprint_length_def assign_apply)
  next
    case (Iteration l s i)
    with b ok sweep_iteration_effect [of T L l s i st o1 s1] show ?thesis by auto
  qed
  with Cons.IH [OF rest] show ?case by simp
qed

subsection \<open>Completion\<close>

lemma comprehension_fingerprints:
  assumes "list_all (parses T) X"
    and "0 < l" "l < 2 ^ 32" "0 \<le> r" "r < 2 ^ 32"
  shows "\<exists>fs. fst (py_comprehension (\<lambda>m. compute_morgan_fingerprints T m l r) X w) = Inr fs
           \<and> length fs = length X \<and> list_all (\<lambda>f. int (length f) = l) fs"
  using assms(1)
proof (induction X arbitrary: w)
  case Nil
  then show ?case by (simp add: py_simps)
next
  case (Cons x X)
  from Cons.prems have "fst (MolFromSmiles T x w) \<noteq> None" by (simp add: parses_def)
  then obtain m where "fst (MolFromSmiles T x w) = Some m" by auto
  from compute_morgan_fingerprints_length [OF this assms(2-5)]
  obtain arr where arr: "fst (compute_morgan_fingerprints T x l r w) = Inr arr"
    "int (length arr) = l" by blast
  from Cons.prems have "list_all (parses T) X" by simp
  from Cons.IH [OF this, of "snd (compute_morgan_fingerprints T x l r w)"]
  obtain fs where fs:
    "fst (py_comprehension (\<lambda>m. compute_morgan_fingerprints T m l r) X
       (snd (compute_morgan_fingerprints T x l r w))) = Inr fs"
    "length fs = length X" "list_all (\<lambda>f. int (length f) = l) fs" by blast
  show ?case
    using arr fs by (simp add: py_simps)
qed

lemma transform_returns:
  assumes "X \<noteq> []" "list_all (parses T) X"
    and "0 < length_attr t" "length_attr t < 2 ^ 32" "0 \<le> radius_attr t" "radius_attr t < 2 ^ 32"
  shows "\<exists>Xt. fst (transform T t X w) = Inr Xt"
proof -
  from comprehension_fingerprints [OF assms(2-6), of w]
  obtain fs where fs:
    "fst (py_comprehension (\<lambda>m. compute_morgan_fingerprints T m (length_attr t) (radius_attr t)) X w) = Inr fs"
    "length fs = length X" "list_all (\<lambda>f. int (length f) = length_attr t) fs" by blast
  from fs(2) assms(1) have ne: "fs \<noteq> []" by auto
  then have "hd fs \<in> set fs" by simp
  with fs(3) have "int (length (hd fs)) = length_attr t" by (simp add: list_all_iff)
  with fs(3) have "\<not> list_ex (\<lambda>r. length r \<noteq> length (hd fs)) fs"
    by (auto simp: list_all_iff list_ex_iff)
  with fs(1) ne show ?thesis
    by (simp add: transform_def np_vstack_def py_simps)
qed

lemma pipeline_fit_returns:
  assumes "learner_total L" "X \<noteq> []" "list_all (parses T) X" "ready T nb st"
  shows "\<exists>st'. pipeline_fit T L X y st = (Inr (), st')"
proof -
  let ?t = "fingerprint (model st)"
  from transform_returns [OF assms(2,3), of ?t "libs st"] assms(4)
  obtain Xt where Xt: "fst (transform T ?t X (libs st)) = Inr Xt"
    by (auto simp: ready_def)
  from assms(1) obtain k' where
    "fst (knn_fit L (knn (model st)) Xt y (snd (transform T ?t X (libs st)))) = Inr k'"
    unfolding learner_total_def by blast
  with Xt show ?thesis
    by (simp add: pipeline_fit_def fit_def nb_simps)
qed

lemma pipeline_predict_returns:
  assumes "learner_total L" "X \<noteq> []" "list_all (parses T) X" "ready T nb st"
  shows "\<exists>yp st'. pipeline_predict T L X st = (Inr yp, st')"
proof -
  let ?t = "fingerprint (model st)"
  from transform_returns [OF assms(2,3), of ?t "libs st"] assms(4)
  obtain Xt where Xt: "fst (transform T ?t X (libs st)) = Inr Xt"
    by (auto simp: ready_def)
  from assms(1) obtain p where
    "fst (knn_predict L (knn (model st)) Xt (snd (transform T ?t X (libs st)))) = Inr p"
    unfolding learner_total_def by blast
  with Xt show ?thesis
    by (simp add: pipeline_predict_def nb_simps)
qed

lemma ready_frame:
  assumes "ready T nb st" "train_data st' = train_data st" "test_data st' = test_data st"
    "fingerprint (model st') = fingerprint (model st)"
  shows "ready T nb st'"
  using assms by (auto simp: ready_def)

lemma sweep_iteration_returns:
  assumes L: "learner_total L" and S: "samples_well T L (train_data nb) s" and R: "ready T nb st"
  shows "\<exists>st'. sweep_iteration T L l s i st = (Inr (), st') \<and> ready T nb st'"
proof -
  from R have tr: "train_data st = train_data nb" by (simp add: ready_def)
  from S tr obtain sub where sub: "fst (sample L (train_data st) s (libs st)) = Inr sub"
    "sub \<noteq> []" "list_all (\<lambda>r. parses T (smiles_0 r)) sub"
    unfolding samples_well_def by metis
  define st1 where "st1 = st\<lparr>libs := snd (sample L (train_data st) s (libs st)), subset_var := sub\<rparr>"
  have R1: "ready T nb st1" using R by (auto simp: st1_def ready_def)
  have X1: "map smiles_0 sub \<noteq> []" "list_all (parses T) (map smiles_0 sub)"
    using sub by (simp_all add: list_all_iff)
  from pipeline_fit_returns [OF L X1 R1] obtain st2 where
    fit: "pipeline_fit T L (map smiles_0 sub) (map bandgap sub) st1 = (Inr (), st2)" by blast
  have R2: "ready T nb st2"
    using pipeline_fit_frame [OF fit] R1 by (intro ready_frame [OF R1]) simp_all
  have X2: "map smiles_0 (test_data st2) \<noteq> []" "list_all (parses T) (map smiles_0 (test_data st2))"
    using R2 by (simp_all add: ready_def list_all_iff)
  from pipeline_predict_returns [OF L X2 R2] obtain yp st3 where
    pred: "pipeline_predict T L (map smiles_0 (test_data st2)) st2 = (Inr yp, st3)" by blast
  have R3: "ready T nb st3"
    using pipeline_predict_frame [OF pred] by (intro ready_frame [OF R2]) simp_all
  from L obtain v1 where v1: "fst (r2_score L (map bandgap (test_data st3)) yp (libs st3)) = Inr v1"
    unfolding learner_total_def by blast
  from L obtain v2 where v2: "fst (mean_absolute_error L (map bandgap (test_data st3)) yp
      (snd (r2_score L (map bandgap (test_data st3)) yp (libs st3)))) = Inr v2"
    unfolding learner_total_def by blast
  have "sweep_iteration T L l s i st =
     (Inr (), st3\<lparr>y_pred := yp,
        libs := snd (mean_absolute_error L (map bandgap (test_data st3)) yp
                  (snd (r2_score L (map bandgap (test_data st3)) yp (libs st3)))),
        results := results st3 @ [result_record l s i v1 v2]\<rparr>)"
    using sub fit pred v1 v2
    by (simp add: sweep_iteration_def nb_simps st1_def)
  moreover have "ready T nb (st3\<lparr>y_pred := yp,
        libs := snd (mean_absolute_error L (map bandgap (test_data st3)) yp
                  (snd (r2_score L (map bandgap (test_data st3)) yp (libs st3)))),
        results := results st3 @ [result_record l s i v1 v2]\<rparr>)"
    using R3 by (auto simp: ready_def)
  ultimately show ?thesis by blast
qed

lemma steps_return:
  assumes L: "learner_total L"
    and steps: "list_all (\<lambda>x. case x of SetLength l \<Rightarrow> 0 < l \<and> l < 2 ^ 32
                     | Iteration l s i \<Rightarrow> samples_well T L (train_data nb) s) steps"
    and R: "ready T nb st"
  shows "\<exists>st'. for_loop (run_step T L) steps st = (Inr (), st') \<and> ready T nb st'"
  using steps R
proof (induction steps arbitrary: st)
  case Nil
  then show ?case by simp
next
  case (Cons x steps)
  have "\<exists>st1. run_step T L x st = (Inr (), st1) \<and> ready T nb st1"
  proof (cases x)
    case (SetLength l)
    with Cons.prems show ?thesis
      by (auto simp: set_params_fingerprint_length_def assign_apply ready_def)
  next
    case (Iteration l s i)
    with Cons.prems sweep_iteration_returns [OF L _ Cons.prems(2)] show ?thesis by simp
  qed
  then obtain st1 where st1: "run_step T L x st = (Inr (), st1)" "ready T nb st1" by blast
  from Cons.prems have "list_all (\<lambda>x. case x of SetLength l \<Rightarrow> 0 < l \<and> l < 2 ^ 32
                     | Iteration l s i \<Rightarrow> samples_well T L (train_data nb) s) steps" by simp
  from Cons.IH [OF this st1(2)] st1(1) show ?case by simp
qed

lemma sweep_returns:
  assumes L: "learner_total L"
    and S: "list_all (samples_well T L (train_data nb)) swept_sizes"
    and R: "ready T nb nb"
  shows "\<exists>nb'. sweep T L nb = (Inr (), nb')"
proof -
  have "list_all (\<lambda>x. case x of SetLength l \<Rightarrow> 0 < l \<and> l < 2 ^ 32
                     | Iteration l s i \<Rightarrow> samples_well T L (train_data nb) s) sweep_steps"
    using S by (auto simp: sweep_steps_def list_all_iff swept_lengths_def)
  moreover have "ready T nb (nb\<lparr>results := []\<rparr>)"
    using R by (auto simp: ready_def)
  ultimately show ?thesis
    using steps_return [OF L] by (fastforce simp: sweep_as_steps)
qed

lemma toy_learner_total: "learner_total toy_sklearn"
  by (simp add: learner_total_def toy_sklearn_def)

lemma toy_parses_methane: "parses toy_toolkit ''C''"
  by (simp add: parses_def toy_toolkit_def)

lemma toy_samples_well:
  assumes "0 < s" "s \<le> int n"
  shows "samples_well toy_toolkit toy_sklearn (replicate n methane) s"
proof -
  have "list_all (\<lambda>r. parses toy_toolkit (smiles_0 r))
      (take (nat s) (rotate w (replicate n methane)))" for w
    unfolding list_all_iff
  proof
    fix r
    assume "r \<in> set (take (nat s) (rotate w (replicate n methane)))"
    then have "r = methane" by (auto dest!: in_set_takeD)
    then show "parses toy_toolkit (smiles_0 r)"
      using toy_parses_methane by (simp add: methane_def)
  qed
  moreover have "take (nat s) (rotate w (replicate n methane)) \<noteq> []" for w
    using assms by auto
  ultimately show ?thesis
    using assms by (simp add: samples_well_def toy_sklearn_def)
qed

lemma toy_ready: "ready toy_toolkit (toy_notebook n) (toy_notebook n)"
  using toy_parses_methane
  by (simp add: ready_def toy_notebook_def init_transformer_def methane_def)

lemma toy_sweep_returns:
  "\<exists>nb'. sweep toy_toolkit toy_sklearn (toy_notebook 3000) = (Inr (), nb')"
proof (rule sweep_returns [OF toy_learner_total _ toy_ready])
  show "list_all (samples_well toy_toolkit toy_sklearn (train_data (toy_notebook 3000))) swept_sizes"
    by (simp add: swept_sizes_def toy_notebook_def toy_samples_well)
qed


lemma sweep_completed_length:
  assumes "sweep T L nb = (Inr (), nb')"
  shows "length (results nb') = 336"
proof -
  from sweep_cases [OF assms] have
    "list_all2 (recorded T L (test_data nb)) (take 336 sweep_keys) (results nb')"
    by auto
  then show ?thesis
    by (auto dest!: list_all2_lengthD simp: length_sweep_keys)
qed

lemma py_range_16: "py_range 16 = [0, 1, 2, 3, 4, 5, 6, 7, 8, 9, 10, 11, 12, 13, 14, 15]"
  by (simp add: py_range_def upt_rec)

lemma sweep_steps_start:
  "sweep_steps = (SetLength 32 # map (\<lambda>i. Iteration 32 3 i) (py_range 16))
      @ Iteration 32 10 0 # drop 18 sweep_steps"
  by (simp add: sweep_steps_def swept_lengths_def swept_sizes_def py_range_16)


section \<open>The claims about the sweep\<close>

text \<open>
  The witnesses run the small instance: with 3000 training rows its sweep completes;
  with 5 rows the sampler refuses the size 10, after the 16 iterations of size 3.
\<close>


text \<open>
  Claim C2. When the sweep runs to completion, the results hold exactly one record per
  loop position: 3 lengths times 7 training-set sizes times 16 repetitions, 336 records.
\<close>

theorem sweep_record_count:
  assumes "sweep T L nb = (Inr (), nb')"
  shows "length (results nb') = length swept_lengths * length swept_sizes * 16
       \<and> length (results nb') = 336"
proof -
  from sweep_cases [OF assms] have
    "list_all2 (recorded T L (test_data nb)) (take 336 sweep_keys) (results nb')"
    by auto
  then have "length (results nb') = 336"
    by (auto dest!: list_all2_lengthD simp: length_sweep_keys)
  then show ?thesis by (simp add: swept_lengths_def swept_sizes_def)
qed

theorem sweep_record_count_witness:
  "fst (sweep toy_toolkit toy_sklearn (toy_notebook 3000)) = Inr ()
   \<and> length (results (snd (sweep toy_toolkit toy_sklearn (toy_notebook 3000)))) = 336"
proof -
  from toy_sweep_returns obtain nb' where
    run: "sweep toy_toolkit toy_sklearn (toy_notebook 3000) = (Inr (), nb')" by blast
  from sweep_record_count [OF run] run show ?thesis by simp
qed

text \<open>
  Claim C8. Every record of the results, at whatever point the sweep ended, is the
  dictionary with the five keys \<^verbatim>\<open>length\<close>, \<^verbatim>\<open>train_size\<close>, \<^verbatim>\<open>iteration\<close>, \<^verbatim>\<open>r2_score\<close>
  and \<^verbatim>\<open>mae\<close>; the record at position \<open>j\<close> holds the length of outer step \<open>j div 112\<close>, the
  training-set size of middle step \<open>j mod 112 div 16\<close> and the repetition \<open>j mod 16\<close>, which
  lies in 0..15.
\<close>

theorem sweep_record_fields:
  assumes "sweep T L nb = (out, nb')" and "j < length (results nb')"
  shows "\<exists>r2 mae.
           results nb' ! j =
             [(''length'', PyInt (swept_lengths ! (j div 112))),
              (''train_size'', PyInt (swept_sizes ! (j mod 112 div 16))),
              (''iteration'', PyInt (int (j mod 16))),
              (''r2_score'', PyFloat r2), (''mae'', PyFloat mae)]
         \<and> j div 112 < length swept_lengths
         \<and> j mod 112 div 16 < length swept_sizes
         \<and> 0 \<le> int (j mod 16) \<and> int (j mod 16) \<le> 15"
proof -
  from sweep_results_nth [OF assms] have j: "j < 336"
    and r: "recorded T L (test_data nb) (sweep_keys ! j) (results nb' ! j)"
    by simp_all
  from r obtain r2 mae where
    "results nb' ! j = result_record (swept_lengths ! (j div 112))
       (swept_sizes ! (j mod 112 div 16)) (int (j mod 16)) r2 mae"
    by (auto simp: recorded_def nth_sweep_keys [OF j])
  moreover have "j mod 16 < 16" by simp
  then have "int (j mod 16) \<le> 15" by linarith
  ultimately show ?thesis
    using position_bounds [OF j]
    by (simp add: result_record_def swept_lengths_def swept_sizes_def)
qed

theorem sweep_record_fields_witness:
  "\<exists>r2 mae. results (snd (sweep toy_toolkit toy_sklearn (toy_notebook 3000))) ! 335 =
     [(''length'', PyInt 128), (''train_size'', PyInt 3000), (''iteration'', PyInt 15),
      (''r2_score'', PyFloat r2), (''mae'', PyFloat mae)]"
proof -
  from toy_sweep_returns obtain nb' where
    run: "sweep toy_toolkit toy_sklearn (toy_notebook 3000) = (Inr (), nb')" by blast
  have "335 < length (results nb')"
    using sweep_completed_length [OF run] by simp
  from sweep_record_fields [OF run this] run show ?thesis
    by (simp add: swept_lengths_def swept_sizes_def)
qed

text \<open>
  Claim C5. Records are appended in the lexicographic order of the loops: of two records
  at positions \<open>j < k\<close>, the triple (index of the length, index of the training-set size,
  repetition) of the first strictly precedes that of the second.
\<close>

theorem sweep_record_order:
  assumes "sweep T L nb = (out, nb')" and "j < k" and "k < length (results nb')"
  shows "\<exists>p q. loop_position (results nb' ! j) = Some p
             \<and> loop_position (results nb' ! k) = Some q
             \<and> precedes p q"
proof -
  have pos: "loop_position (results nb' ! n) = Some (n div 112, n mod 112 div 16, int (n mod 16))"
    if "n < length (results nb')" for n
  proof -
    from sweep_results_nth [OF assms(1) that] have n: "n < 336"
      and r: "recorded T L (test_data nb) (sweep_keys ! n) (results nb' ! n)"
      by simp_all
    from r obtain r2 mae where
      "results nb' ! n = result_record (swept_lengths ! (n div 112))
         (swept_sizes ! (n mod 112 div 16)) (int (n mod 16)) r2 mae"
      by (auto simp: recorded_def nth_sweep_keys [OF n])
    then show ?thesis
      using position_bounds [OF n] by (simp add: loop_position_record)
  qed
  from assms have "j < length (results nb')" by simp
  from pos [OF this] pos [OF assms(3)] precedes_positions [OF assms(2)]
  show ?thesis by blast
qed

theorem sweep_record_order_witness:
  "\<exists>p q. loop_position (results (snd (sweep toy_toolkit toy_sklearn (toy_notebook 3000))) ! 111) = Some p
       \<and> loop_position (results (snd (sweep toy_toolkit toy_sklearn (toy_notebook 3000))) ! 112) = Some q
       \<and> precedes p q"
proof -
  from toy_sweep_returns obtain nb' where
    run: "sweep toy_toolkit toy_sklearn (toy_notebook 3000) = (Inr (), nb')" by blast
  have "112 < length (results nb')"
    using sweep_completed_length [OF run] by simp
  from sweep_record_order [OF run _ this, of 111] run show ?thesis
    by simp
qed

text \<open>
  Claim C9. The sweep leaves the test partition and the training partition as they were,
  whether it completes or aborts, and both scores of every record are computed against
  the targets of that one test partition, for a prediction on its SMILES strings.
\<close>

theorem sweep_partitions_fixed:
  assumes "sweep T L nb = (out, nb')"
  shows "test_data nb' = test_data nb \<and> train_data nb' = train_data nb
       \<and> list_all (\<lambda>r. \<exists>r2 mae. map_of r ''r2_score'' = Some (PyFloat r2)
                      \<and> map_of r ''mae'' = Some (PyFloat mae)
                      \<and> scored_against T L (test_data nb) r2 mae) (results nb')"
proof -
  have "\<exists>r2 mae. map_of r ''r2_score'' = Some (PyFloat r2)
                      \<and> map_of r ''mae'' = Some (PyFloat mae)
                      \<and> scored_against T L (test_data nb) r2 mae"
    if "r \<in> set (results nb')" for r
  proof -
    from that obtain j where j: "j < length (results nb')" "r = results nb' ! j"
      by (auto simp: in_set_conv_nth)
    from sweep_results_nth [OF assms j(1)] j(2)
    have "recorded T L (test_data nb) (sweep_keys ! j) r" by simp
    then show ?thesis
      by (auto simp: recorded_def result_record_def split: prod.splits)
  qed
  then show ?thesis
    using sweep_cases [OF assms] by (simp add: list_all_iff)
qed

theorem sweep_partitions_fixed_witness:
  "test_data (snd (sweep toy_toolkit toy_sklearn (toy_notebook 3000))) = [methane]
   \<and> train_data (snd (sweep toy_toolkit toy_sklearn (toy_notebook 3000))) = replicate 3000 methane
   \<and> list_all (\<lambda>r. \<exists>r2 mae. map_of r ''r2_score'' = Some (PyFloat r2)
                      \<and> map_of r ''mae'' = Some (PyFloat mae)
                      \<and> scored_against toy_toolkit toy_sklearn [methane] r2 mae)
        (results (snd (sweep toy_toolkit toy_sklearn (toy_notebook 3000))))"
proof -
  obtain out nb' where
    run: "sweep toy_toolkit toy_sklearn (toy_notebook 3000) = (out, nb')" by fastforce
  from sweep_partitions_fixed [OF run] run show ?thesis
    by (simp add: toy_notebook_def)
qed

text \<open>
  Claim C6. If an iteration raises after the steps before it have completed, the sweep
  ends there with that exception, in the state the failing iteration left: the results are
  those that stood before the failing iteration, one record for each completed
  iteration, and no later step runs.
\<close>

theorem sweep_aborts_on_exception:
  assumes "sweep_steps = pre @ Iteration l s i # post"
    and "for_loop (run_step T L) pre (nb\<lparr>results := []\<rparr>) = (Inr (), nb1)"
    and "sweep_iteration T L l s i nb1 = (Inl e, nb2)"
  shows "sweep T L nb = (Inl e, nb2)
       \<and> results nb2 = results nb1
       \<and> length (results nb1) = length (filter is_iteration pre)"
proof -
  have "for_loop (run_step T L) (pre @ Iteration l s i # post) (nb\<lparr>results := []\<rparr>) = (Inl e, nb2)"
    using assms(2,3) by (simp add: for_loop_append)
  then have "sweep T L nb = (Inl e, nb2)"
    by (simp only: sweep_as_steps assms(1))
  moreover have "results nb2 = results nb1"
    using sweep_iteration_effect [OF assms(3)] by simp
  moreover have "length (results nb1) = length (filter is_iteration pre)"
    using steps_record_count [OF assms(2)] by simp
  ultimately show ?thesis by simp
qed

theorem sweep_aborts_on_exception_witness:
  "fst (sweep toy_toolkit toy_sklearn (toy_notebook 5)) = Inl ValueError
   \<and> length (results (snd (sweep toy_toolkit toy_sklearn (toy_notebook 5)))) = 16"
proof -
  let ?pre = "SetLength 32 # map (\<lambda>i. Iteration 32 3 i) (py_range 16)"
  have "list_all (\<lambda>x. case x of SetLength l \<Rightarrow> 0 < l \<and> l < 2 ^ 32
          | Iteration l s i \<Rightarrow> samples_well toy_toolkit toy_sklearn (train_data (toy_notebook 5)) s) ?pre"
    by (simp add: list_all_iff toy_notebook_def toy_samples_well)
  moreover have "ready toy_toolkit (toy_notebook 5) ((toy_notebook 5)\<lparr>results := []\<rparr>)"
    using toy_ready [of 5] by (auto simp: ready_def)
  ultimately obtain nb1 where
    pre: "for_loop (run_step toy_toolkit toy_sklearn) ?pre ((toy_notebook 5)\<lparr>results := []\<rparr>) = (Inr (), nb1)"
    and r1: "ready toy_toolkit (toy_notebook 5) nb1"
    using steps_return [OF toy_learner_total] by blast
  from r1 have "train_data nb1 = replicate 5 methane"
    by (simp add: ready_def toy_notebook_def)
  then have fail: "sweep_iteration toy_toolkit toy_sklearn 32 10 0 nb1 = (Inl ValueError, nb1)"
    by (simp add: sweep_iteration_def nb_simps toy_sklearn_def)
  from sweep_aborts_on_exception [OF sweep_steps_start pre fail] show ?thesis
    by (simp add: py_range_16)
qed

section \<open>The claims about the fingerprints\<close>

text \<open>
  Claim C1, where the code departs from it. \<^verbatim>\<open>compute_morgan_fingerprints_newvers\<close> passes
  the requested length as the second positional argument of \<^verbatim>\<open>GetMorganGenerator\<close>, which
  is not the size of the fingerprint: for every SMILES string that parses and every radius
  in range the array has 2048 entries, whatever length was requested. (The older function
  returns the requested length: \<open>compute_morgan_fingerprints_length\<close>.)
\<close>

theorem newvers_ignores_length:
  assumes "fst (MolFromSmiles T smiles w) = Some m"
    and "0 \<le> fingerprint_radius" "fingerprint_radius < 2 ^ 32"
  shows "\<exists>arr. fst (compute_morgan_fingerprints_newvers T smiles fingerprint_length fingerprint_radius w) = Inr arr
           \<and> length arr = 2048"
  using assms
  by (simp add: compute_morgan_fingerprints_newvers_def GetMorganGenerator_def GetFingerprint_def
      as_unsigned_int_ok ConvertToNumpyArray_eq length_hashed_bit_vect py_simps)

theorem newvers_ignores_length_witness:
  "\<exists>arr. fst (compute_morgan_fingerprints_newvers toy_toolkit ''C'' 4 2 0) = Inr arr
      \<and> length arr = 2048 \<and> int (length arr) \<noteq> 4"
proof -
  have "fst (MolFromSmiles toy_toolkit ''C'' 0) = Some ''C''"
    by (simp add: toy_toolkit_def)
  from newvers_ignores_length [OF this, of 2 4] show ?thesis by auto
qed

lemma toy_methane_bits: "hashed_bit_vect 4 [67] = [False, False, False, True]"
  by code_simp

lemma toy_methane_fingerprint:
  "fst (compute_morgan_fingerprints toy_toolkit ''C'' 4 2 0) = Inr [False, False, False, True]"
  by (simp add: compute_morgan_fingerprints_def GetMorganFingerprintAsBitVect_def
      as_unsigned_int_def toy_toolkit_def py_simps ConvertToNumpyArray_eq toy_methane_bits)

section \<open>The claims about feature selection and standardization\<close>

lemma keep_unflagged:
  "map fst (filter (\<lambda>(x, flag). \<not> flag) (zip xs (map f xs))) = filter (\<lambda>x. \<not> f x) xs"
  by (induction xs) auto

lemma in_feature_selection:
  assumes "feature_selection std coerce desc = Inr cond" and "(name, nc) \<in> set cond"
  shows "\<not> isnull_any nc \<and>
         (\<exists>c. (name, c) \<in> set desc \<and> nc = to_numeric coerce c) \<and>
         (\<forall>c. (name, c) \<in> set desc \<and> is_int64_or_float64 c \<longrightarrow> describe_std std c \<noteq> Some 0)"
proof -
  let ?numeric = "filter (\<lambda>(name, c). is_int64_or_float64 c) desc"
  let ?zero = "map fst (filter (\<lambda>(name, c). describe_std std c = Some 0) ?numeric)"
  let ?dropped = "filter (\<lambda>(name, c). name \<notin> set ?zero) desc"
  let ?coerced = "map (\<lambda>(name, c). (name, to_numeric coerce c)) ?dropped"
  let ?missing = "map (\<lambda>(name, c). isnull_any c) ?coerced"
  from assms(1) have cond: "cond = map fst (filter (\<lambda>(nc, missing). \<not> missing) (zip ?coerced ?missing))"
    by (simp add: feature_selection_def Let_def split: if_splits)
  have "cond = filter (\<lambda>p. \<not> (case p of (name, c) \<Rightarrow> isnull_any c)) ?coerced"
    unfolding cond by (rule keep_unflagged)
  with assms(2) have a: "\<not> isnull_any nc" and b: "(name, nc) \<in> set ?coerced"
    by auto
  from b obtain c where c: "(name, c) \<in> set desc" "nc = to_numeric coerce c"
    "name \<notin> set ?zero"
    by auto
  have "describe_std std c' \<noteq> Some 0" if "(name, c') \<in> set desc" "is_int64_or_float64 c'" for c'
  proof
    assume "describe_std std c' = Some 0"
    with that have "name \<in> set ?zero" by force
    with c(3) show False by simp
  qed
  with a c show ?thesis by blast
qed

text \<open>
  Claim C4, amended. In a table with at least one \<^verbatim>\<open>int64\<close> or \<^verbatim>\<open>float64\<close> column and
  distinct labels, the feature selection returns, and a column is absent from its result
  when it is an \<^verbatim>\<open>int64\<close> or \<^verbatim>\<open>float64\<close> column for which the standard deviation that
  \<^verbatim>\<open>describe()\<close> reports, whatever pandas' floating-point computation makes it, equals
  zero, or when it holds a missing value after the numeric coercion. Columns of another
  dtype are not tested for being constant.
\<close>

theorem feature_selection_drops:
  assumes "list_ex is_int64_or_float64 (map snd desc)"
    and "distinct (map fst desc)"
    and "(name, c) \<in> set desc"
    and "(is_int64_or_float64 c \<and> describe_std std c = Some 0) \<or> isnull_any (to_numeric coerce c)"
  shows "\<exists>cond. feature_selection std coerce desc = Inr cond \<and> name \<notin> fst ` set cond"
proof -
  from assms(1) have "filter (\<lambda>(name, c). is_int64_or_float64 c) desc \<noteq> []"
    by (auto simp: list_ex_iff filter_empty_conv)
  then obtain cond where cond: "feature_selection std coerce desc = Inr cond"
    by (simp add: feature_selection_def Let_def)
  have "name \<notin> fst ` set cond"
  proof
    assume "name \<in> fst ` set cond"
    then obtain nc where "(name, nc) \<in> set cond" by auto
    from in_feature_selection [OF cond this] obtain c' where
      c': "\<not> isnull_any nc" "(name, c') \<in> set desc" "nc = to_numeric coerce c'"
      and std: "\<forall>c. (name, c) \<in> set desc \<and> is_int64_or_float64 c \<longrightarrow> describe_std std c \<noteq> Some 0"
      by blast
    from assms(2) c'(2) assms(3) have "c' = c" by (rule eq_key_imp_eq_value)
    with c' std assms(3,4) show False by auto
  qed
  with cond show ?thesis by blast
qed

lemma exact_std_pair: "exact_std [a, b] = Some (sqrt (((a - b) / 2) ^ 2 + ((b - a) / 2) ^ 2))"
  by (simp add: exact_std_def np_mean_def field_simps)

lemma two_molecules_selected:
  "feature_selection exact_std no_number two_molecules =
     Inr [(''nAtom'', NInt64 [5, 7]), (''Lipinski'', NBool [True, True])]"
  by (simp add: feature_selection_def two_molecules_def exact_std_pair)

text \<open>
  The boolean column of the two molecules is never described, so it is kept whatever
  pandas reports for the other column.
\<close>

lemma bool_column_kept_for_any_std:
  "\<exists>cond. feature_selection std no_number two_molecules = Inr cond
     \<and> (''Lipinski'', NBool [True, True]) \<in> set cond"
  by (simp add: feature_selection_def two_molecules_def)

text \<open>
  The claim as stated fails for a constant column that is not \<^verbatim>\<open>int64\<close> or \<^verbatim>\<open>float64\<close>: the
  boolean column of the two molecules has sample standard deviation zero and is kept.
\<close>

theorem constant_bool_column_kept:
  "(''Lipinski'', Bool [True, True]) \<in> set two_molecules
   \<and> series_std exact_std no_number (Bool [True, True]) = Some 0
   \<and> feature_selection exact_std no_number two_molecules =
       Inr [(''nAtom'', NInt64 [5, 7]), (''Lipinski'', NBool [True, True])]"
  by (simp add: two_molecules_selected exact_std_pair bool_as_float_def) (simp add: two_molecules_def)

theorem feature_selection_drops_witness:
  "feature_selection exact_std no_number with_gaps = Inr [(''nAtom'', NInt64 [5, 7])]
   \<and> (\<exists>cond. feature_selection exact_std no_number with_gaps = Inr cond \<and> ''nRing'' \<notin> fst ` set cond)
   \<and> (\<exists>cond. feature_selection exact_std no_number with_gaps = Inr cond \<and> ''LogP'' \<notin> fst ` set cond)
   \<and> (\<exists>cond. feature_selection exact_std no_number with_gaps = Inr cond \<and> ''Name'' \<notin> fst ` set cond)"
proof -
  have ex: "list_ex is_int64_or_float64 (map snd with_gaps)"
    and d: "distinct (map fst with_gaps)"
    by (simp_all add: with_gaps_def)
  have 1: "(''nRing'', Int64 [1, 1]) \<in> set with_gaps"
    and 2: "(''LogP'', Float64 [Some 1, None]) \<in> set with_gaps"
    and 3: "(''Name'', Object [''a'', ''b'']) \<in> set with_gaps"
    by (simp_all add: with_gaps_def)
  have "feature_selection exact_std no_number with_gaps = Inr [(''nAtom'', NInt64 [5, 7])]"
    by (simp add: feature_selection_def with_gaps_def exact_std_pair no_number_def)
  moreover note feature_selection_drops [OF ex d 1, of exact_std no_number]
    feature_selection_drops [OF ex d 2, of exact_std no_number]
    feature_selection_drops [OF ex d 3, of exact_std no_number]
  ultimately show ?thesis
    by (simp add: exact_std_pair no_number_def)
qed

lemma present_map_Some [simp]: "present (map Some xs) = xs"
  by (induction xs) auto

lemma as_floats_no_missing:
  assumes "\<not> isnull_any nc"
  shows "\<exists>xs. as_floats nc = map Some xs"
proof (cases nc)
  case (NInt64 xs)
  then show ?thesis by (auto intro: exI [of _ "map real_of_int xs"])
next
  case (NFloat64 xs)
  with assms have "\<not> list_ex (\<lambda>v. v = None) xs" by simp
  then have "xs = map Some (present xs)"
    by (induction xs rule: present.induct) auto
  with NFloat64 show ?thesis by auto
next
  case (NBool bs)
  then show ?thesis by (auto intro: exI [of _ "map bool_as_float bs"])
qed

lemma sum_list_deviations:
  assumes "xs \<noteq> []"
  shows "sum_list (map (\<lambda>x. x - np_mean xs) xs) = 0"
proof -
  have "sum_list (map (\<lambda>x. x - np_mean xs) xs) = sum_list xs - real (length xs) * np_mean xs"
    by (simp add: sum_list_subtractf sum_list_triv)
  also have "\<dots> = 0" using assms by (simp add: np_mean_def)
  finally show ?thesis .
qed

lemma sum_list_divide: "sum_list (map (\<lambda>x. f x / c) xs) = sum_list (map f xs) / (c::real)"
  by (induction xs) (simp_all add: add_divide_distrib)

lemma np_mean_scaled:
  assumes "xs \<noteq> []"
  shows "np_mean (map (\<lambda>x. (x - np_mean xs) / s) xs) = 0"
  using sum_list_deviations [OF assms]
  by (simp add: np_mean_def sum_list_divide o_def)

lemma np_var_scaled:
  assumes "xs \<noteq> []"
  shows "np_var (map (\<lambda>x. (x - np_mean xs) / s) xs) = np_var xs / s ^ 2"
proof -
  have "np_var (map (\<lambda>x. (x - np_mean xs) / s) xs)
      = sum_list (map (\<lambda>x. (x - np_mean xs) ^ 2 / s ^ 2) xs) / real (length xs)"
    by (simp add: np_var_def np_mean_scaled [OF assms] o_def power_divide)
  also have "\<dots> = np_var xs / s ^ 2"
    by (simp add: sum_list_divide np_var_def)
  finally show ?thesis .
qed

lemma np_var_nonneg: "0 \<le> np_var xs"
  unfolding np_var_def by (intro divide_nonneg_nonneg sum_list_nonneg) auto

lemma np_var_zero_iff:
  assumes "xs \<noteq> []"
  shows "np_var xs = 0 \<longleftrightarrow> (\<forall>x\<in>set xs. x = np_mean xs)"
proof -
  have "np_var xs = 0 \<longleftrightarrow> sum_list (map (\<lambda>x. (x - np_mean xs) ^ 2) xs) = 0"
    using assms by (simp add: np_var_def)
  also have "\<dots> \<longleftrightarrow> (\<forall>y\<in>set (map (\<lambda>x. (x - np_mean xs) ^ 2) xs). y = 0)"
    by (rule sum_list_nonneg_eq_0_iff) auto
  also have "\<dots> \<longleftrightarrow> (\<forall>x\<in>set xs. x = np_mean xs)"
    by auto
  finally show ?thesis .
qed

lemma np_mean_constant:
  assumes "xs \<noteq> []" "\<forall>x\<in>set xs. x = c"
  shows "np_mean xs = c"
proof -
  from assms(2) have "xs = replicate (length xs) c"
    by (simp add: replicate_length_same)
  then have "sum_list xs = real (length xs) * c"
    by (metis sum_list_replicate)
  with assms(1) show ?thesis by (simp add: np_mean_def)
qed

lemma np_std_zero_iff_constant:
  assumes "xs \<noteq> []"
  shows "np_std xs = 0 \<longleftrightarrow> constant_column xs"
proof
  assume "np_std xs = 0"
  then have m: "\<forall>x\<in>set xs. x = np_mean xs"
    using np_var_zero_iff [OF assms] by (simp add: np_std_def)
  moreover from assms have "hd xs \<in> set xs" by simp
  ultimately have "hd xs = np_mean xs" by blast
  with m show "constant_column xs"
    by (simp add: constant_column_def list_all_iff)
next
  assume "constant_column xs"
  then have c: "\<forall>x\<in>set xs. x = hd xs" by (simp add: constant_column_def list_all_iff)
  from np_mean_constant [OF assms c] c have "\<forall>x\<in>set xs. x = np_mean xs" by simp
  then show "np_std xs = 0"
    using np_var_zero_iff [OF assms] by (simp add: np_std_def)
qed

lemma standardized_statistics:
  assumes "xs \<noteq> []"
  defines "zs \<equiv> map (\<lambda>x. (x - np_mean xs) / scale_of xs) xs"
  shows "np_mean zs = 0 \<and> np_std zs = (if constant_column xs then 0 else 1)"
proof
  show "np_mean zs = 0" unfolding zs_def by (rule np_mean_scaled [OF assms(1)])
  have v: "np_var zs = np_var xs / (scale_of xs) ^ 2"
    unfolding zs_def by (rule np_var_scaled [OF assms(1)])
  show "np_std zs = (if constant_column xs then 0 else 1)"
  proof (cases "constant_column xs")
    case True
    then have "np_std xs = 0" using np_std_zero_iff_constant [OF assms(1)] by simp
    then have "np_var xs = 0" by (simp add: np_std_def)
    with v True show ?thesis by (simp add: np_std_def)
  next
    case False
    then have nz: "np_std xs \<noteq> 0" using np_std_zero_iff_constant [OF assms(1)] by simp
    then have "scale_of xs = sqrt (np_var xs)" by (simp add: scale_of_def np_std_def)
    then have "(scale_of xs) ^ 2 = np_var xs" by (simp add: np_var_nonneg)
    moreover from nz have "np_var xs \<noteq> 0" by (auto simp: np_std_def)
    ultimately have "np_var zs = 1" using v by simp
    with False show ?thesis by (simp add: np_std_def)
  qed
qed

lemma standardize_no_missing:
  "standardize (map Some xs) = map Some (map (\<lambda>x. (x - np_mean xs) / scale_of xs) xs)"
  by (simp add: standardize_def)

text \<open>
  Claim C7, amended. When the selected table has a column and a row, standardization
  returns one column of numbers for each of its columns; the mean of each is 0, and its
  (population) standard deviation is 1 unless the column was constant, in which case
  every entry becomes 0 and the standard deviation is 0.
\<close>

theorem standardized_columns:
  assumes "feature_selection std coerce desc = Inr cond"
    and "cond \<noteq> []" and "as_floats (snd (hd cond)) \<noteq> []"
  shows "\<exists>feats. StandardScaler_fit_transform cond = Inr feats \<and> length feats = length cond \<and>
           (\<forall>j<length cond. \<exists>xs zs.
              as_floats (snd (cond ! j)) = map Some xs \<and> feats ! j = map Some zs \<and>
              length zs = length xs \<and>
              (xs \<noteq> [] \<longrightarrow> np_mean zs = 0 \<and> np_std zs = (if constant_column xs then 0 else 1)))"
proof -
  let ?feats = "map (\<lambda>(name, c). standardize (as_floats c)) cond"
  have run: "StandardScaler_fit_transform cond = Inr ?feats"
    using assms(2,3) by (simp add: StandardScaler_fit_transform_def)
  have col: "\<exists>xs zs. as_floats (snd (cond ! j)) = map Some xs \<and> ?feats ! j = map Some zs \<and>
              length zs = length xs \<and>
              (xs \<noteq> [] \<longrightarrow> np_mean zs = 0 \<and> np_std zs = (if constant_column xs then 0 else 1))"
    if j: "j < length cond" for j
  proof -
    obtain name nc where p: "cond ! j = (name, nc)" by fastforce
    with j have "(name, nc) \<in> set cond" by (metis nth_mem)
    from in_feature_selection [OF assms(1) this] have "\<not> isnull_any nc" by simp
    from as_floats_no_missing [OF this] obtain xs where xs: "as_floats nc = map Some xs" by blast
    let ?zs = "map (\<lambda>x. (x - np_mean xs) / scale_of xs) xs"
    have "?feats ! j = map Some ?zs"
      using j p xs by (simp add: standardize_no_missing)
    moreover have "xs \<noteq> [] \<longrightarrow> np_mean ?zs = 0 \<and> np_std ?zs = (if constant_column xs then 0 else 1)"
      using standardized_statistics by blast
    ultimately show ?thesis using p xs by (intro exI [of _ xs] exI [of _ ?zs]) simp
  qed
  from run col show ?thesis by (intro exI [of _ ?feats]) simp
qed

lemma np_std_pair: "np_std [a, b] = \<bar>a - b\<bar> / 2"
proof -
  have "np_var [a, b] = ((a - b) / 2) ^ 2"
    by (simp add: np_var_def np_mean_def field_simps power2_eq_square)
  then show ?thesis by (simp add: np_std_def real_sqrt_divide)
qed

lemma np_mean_pair: "np_mean [a, b] = (a + b) / 2"
  by (simp add: np_mean_def)

text \<open>
  The claim as stated fails for the two molecules: their boolean column passes the
  feature selection and is standardized to zeros, with standard deviation 0, not 1.
\<close>

theorem constant_column_scaled_to_zero:
  "feature_selection exact_std no_number two_molecules =
     Inr [(''nAtom'', NInt64 [5, 7]), (''Lipinski'', NBool [True, True])]
   \<and> StandardScaler_fit_transform [(''nAtom'', NInt64 [5, 7]), (''Lipinski'', NBool [True, True])] =
       Inr [[Some (- 1), Some 1], [Some 0, Some 0]]
   \<and> np_mean [0, 0] = 0 \<and> np_std [0, 0] = 0 \<and> np_std [0, 0] \<noteq> 1"
  by (simp add: two_molecules_selected StandardScaler_fit_transform_def standardize_def
      scale_of_def np_std_pair np_mean_pair bool_as_float_def)

theorem standardized_columns_witness:
  "\<exists>feats. StandardScaler_fit_transform [(''nAtom'', NInt64 [5, 7]), (''Lipinski'', NBool [True, True])] = Inr feats
     \<and> length feats = 2
     \<and> (\<exists>zs. feats ! 0 = map Some zs \<and> np_mean zs = 0 \<and> np_std zs = 1)
     \<and> (\<exists>zs. feats ! 1 = map Some zs \<and> np_mean zs = 0 \<and> np_std zs = 0)"
proof -
  let ?cond = "[(''nAtom'', NInt64 [5, 7]), (''Lipinski'', NBool [True, True])]"
  have ne: "?cond \<noteq> []" and rows: "as_floats (snd (hd ?cond)) \<noteq> []" by simp_all
  from standardized_columns [OF two_molecules_selected ne rows] obtain feats where
    f: "StandardScaler_fit_transform ?cond = Inr feats" "length feats = length ?cond"
    and cols: "\<forall>j<length ?cond. \<exists>xs zs.
              as_floats (snd (?cond ! j)) = map Some xs \<and> feats ! j = map Some zs \<and>
              length zs = length xs \<and>
              (xs \<noteq> [] \<longrightarrow> np_mean zs = 0 \<and> np_std zs = (if constant_column xs then 0 else 1))"
    by blast
  have "0 < length ?cond" by simp
  from cols [rule_format, OF this] obtain xs0 zs0 where
    c0: "as_floats (snd (?cond ! 0)) = map Some xs0" "feats ! 0 = map Some zs0"
    "xs0 \<noteq> [] \<longrightarrow> np_mean zs0 = 0 \<and> np_std zs0 = (if constant_column xs0 then 0 else 1)"
    by blast
  from c0(1) have x0: "xs0 = [5, 7]" by auto
  have "1 < length ?cond" by simp
  from cols [rule_format, OF this] obtain xs1 zs1 where
    c1: "as_floats (snd (?cond ! 1)) = map Some xs1" "feats ! 1 = map Some zs1"
    "xs1 \<noteq> [] \<longrightarrow> np_mean zs1 = 0 \<and> np_std zs1 = (if constant_column xs1 then 0 else 1)"
    by blast
  from c1(1) have x1: "xs1 = [1, 1]" by (auto simp: bool_as_float_def)
  from c0(3) x0 have "np_mean zs0 = 0 \<and> np_std zs0 = 1" by (simp add: constant_column_def)
  moreover from c1(3) x1 have "np_mean zs1 = 0 \<and> np_std zs1 = 0" by (simp add: constant_column_def)
  ultimately show ?thesis using f c0(2) c1(2) by auto
qed

section \<open>The claim about unparsable SMILES strings\<close>

lemma comprehension_raises:
  assumes "\<And>w. \<exists>e. fst (f a w) = Inl e" and "a \<in> set X"
  shows "\<exists>e. fst (py_comprehension f X w) = Inl e"
  using assms(2)
proof (induction X arbitrary: w)
  case Nil
  then show ?case by simp
next
  case (Cons x X)
  show ?case
  proof (cases "fst (f x w)")
    case (Inl e)
    then show ?thesis by (simp add: py_simps)
  next
    case (Inr y)
    with assms(1) [of w] have "x \<noteq> a" by auto
    with Cons.prems have "a \<in> set X" by simp
    from Cons.IH [OF this, of "snd (f x w)"] obtain e where
      "fst (py_comprehension f X (snd (f x w))) = Inl e" by blast
    with Inr show ?thesis by (simp add: py_simps)
  qed
qed

lemma transform_raises:
  assumes "\<And>w. \<exists>e. fst (compute_morgan_fingerprints T a (length_attr t) (radius_attr t) w) = Inl e"
    and "a \<in> set X"
  shows "\<exists>e. fst (transform T t X w) = Inl e"
proof -
  from comprehension_raises [of "\<lambda>m. compute_morgan_fingerprints T m (length_attr t) (radius_attr t)" a X w]
    assms
  obtain e where
    "fst (py_comprehension (\<lambda>m. compute_morgan_fingerprints T m (length_attr t) (radius_attr t)) X w) = Inl e"
    by blast
  then show ?thesis by (simp add: transform_def py_simps)
qed

lemma newvers_unparsable:
  assumes "fst (MolFromSmiles T smiles w) = None"
  shows "\<exists>e. fst (compute_morgan_fingerprints_newvers T smiles n r w) = Inl e"
  using assms
  by (simp add: compute_morgan_fingerprints_newvers_def GetMorganGenerator_def GetFingerprint_def
      as_unsigned_int_def py_simps)

text \<open>
  Claim C3, amended. For a SMILES string that the parser fails to parse, the null
  molecule reaches the toolkit unchecked and the fingerprint computation raises:
  \<^verbatim>\<open>compute_morgan_fingerprints\<close> ends with the toolkit's argument error,
  \<^verbatim>\<open>compute_morgan_fingerprints_newvers\<close> raises, and so does \<^verbatim>\<open>transform\<close> on a list that
  holds the string. Missing values arise in the descriptor table: a cell that the numeric
  coercion cannot read becomes a missing value, and its column is dropped by the filter.
\<close>

theorem unparsable_smiles_raises:
  assumes "\<forall>w. fst (MolFromSmiles T smiles w) = None"
  shows "fst (compute_morgan_fingerprints T smiles n r w) = Inl ArgumentError
       \<and> (\<exists>e. fst (compute_morgan_fingerprints_newvers T smiles n r w) = Inl e)
       \<and> (smiles \<in> set X \<longrightarrow> (\<exists>e. fst (transform T t X w) = Inl e))
       \<and> (list_ex is_int64_or_float64 (map snd desc) \<and> distinct (map fst desc)
            \<and> (name, Object os) \<in> set desc \<and> list_ex (\<lambda>v. coerce v = None) os
          \<longrightarrow> (\<exists>cond. feature_selection std coerce desc = Inr cond \<and> name \<notin> fst ` set cond))"
proof (intro conjI impI)
  from assms have none: "fst (MolFromSmiles T smiles w') = None" for w' by simp
  show "fst (compute_morgan_fingerprints T smiles n r w) = Inl ArgumentError"
    by (rule unparsable [OF none])
  show "\<exists>e. fst (compute_morgan_fingerprints_newvers T smiles n r w) = Inl e"
    by (rule newvers_unparsable [OF none])
  show "\<exists>e. fst (transform T t X w) = Inl e" if "smiles \<in> set X"
    using unparsable [OF none] that by (intro transform_raises [of T smiles]) auto
next
  assume a: "list_ex is_int64_or_float64 (map snd desc) \<and> distinct (map fst desc)
            \<and> (name, Object os) \<in> set desc \<and> list_ex (\<lambda>v. coerce v = None) os"
  then have "filter (\<lambda>(name, c). is_int64_or_float64 c) desc \<noteq> []"
    by (auto simp: list_ex_iff filter_empty_conv)
  then obtain cond where cond: "feature_selection std coerce desc = Inr cond"
    by (simp add: feature_selection_def Let_def)
  have "name \<notin> fst ` set cond"
  proof
    assume "name \<in> fst ` set cond"
    then obtain nc where "(name, nc) \<in> set cond" by auto
    from in_feature_selection [OF cond this] obtain c' where
      c': "\<not> isnull_any nc" "(name, c') \<in> set desc" "nc = to_numeric coerce c'"
      by blast
    from a c'(2) have "c' = Object os" by (auto dest: eq_key_imp_eq_value)
    with c'(1,3) have "\<not> list_ex (\<lambda>v. v = None) (map coerce os)" by simp
    moreover from a obtain v where "v \<in> set os" "coerce v = None"
      by (auto simp: list_ex_iff)
    then have "None \<in> set (map coerce os)" by force
    then have "list_ex (\<lambda>v. v = None) (map coerce os)"
      unfolding list_ex_iff by blast
    ultimately show False by simp
  qed
  with cond show "\<exists>cond. feature_selection std coerce desc = Inr cond \<and> name \<notin> fst ` set cond"
    by blast
qed

text \<open>
  The claim as stated fails on the small instance: the string does not parse, and the
  fingerprint computation raises instead of yielding a missing value.
\<close>

theorem unparsable_smiles_counterexample:
  "fst (MolFromSmiles toy_toolkit ''C('' 0) = None
   \<and> fst (compute_morgan_fingerprints toy_toolkit ''C('' 4 2 0) = Inl ArgumentError"
  by (simp add: compute_morgan_fingerprints_def GetMorganFingerprintAsBitVect_def
      toy_toolkit_def py_simps)

theorem unparsable_smiles_raises_witness:
  "fst (compute_morgan_fingerprints toy_toolkit ''C('' 4 2 0) = Inl ArgumentError
   \<and> (\<exists>e. fst (compute_morgan_fingerprints_newvers toy_toolkit ''C('' 4 2 0) = Inl e)
   \<and> (\<exists>e. fst (transform toy_toolkit (init_transformer 4 4) [''C'', ''C(''] 0) = Inl e)
   \<and> (\<exists>cond. feature_selection exact_std no_number with_gaps = Inr cond \<and> ''Name'' \<notin> fst ` set cond)"
proof -
  have "\<forall>w. fst (MolFromSmiles toy_toolkit ''C('' w) = None"
    by (simp add: toy_toolkit_def)
  from unparsable_smiles_raises [OF this, of 4 2 0 "[''C'', ''C('']" "init_transformer 4 4"
      with_gaps "''Name''" "[''a'', ''b'']" no_number exact_std]
  show ?thesis
    by (simp add: with_gaps_def no_number_def)
qed

end
